theory Spec2Isabelle
  imports Complex_Main "HOL-Library.AList"
begin

section \<open>JavaScript values\<close>

text \<open>
  The program is JavaScript (\<^verbatim>\<open>getBrandWebsite.js\<close>). Its data are JSON values: the
  backend's response body, the object the model answers with, the Result Records and
  the Run Record files. A value that is \<^verbatim>\<open>undefined\<close> is \<open>None\<close> of an option.
  An object is the list of its members in insertion order. Numbers are exact
  rationals: the rounding of IEEE doubles is not part of the model. Strings are lists
  of characters, one per code unit.
\<close>

datatype json =
    JNull
  | JBool bool
  | JNum rat
  | JStr string
  | JArr "json list"
  | JObj "(string \<times> json) list"

text \<open>An exception is the \<^verbatim>\<open>message\<close> of the \<^verbatim>\<open>Error\<close> object thrown.\<close>

datatype js_error = Error (error_message: string)

text \<open>
  The built-ins of the runtime that the model takes as given: \<^verbatim>\<open>JSON.parse\<close>
  (\<open>None\<close> when it throws a SyntaxError) and the conversion \<^verbatim>\<open>ToString\<close> of a value that
  is used as a property key.
\<close>

record platform =
  JSON_parse :: "string \<Rightarrow> json option"
  ToString :: "json \<Rightarrow> string"

text \<open>\<^verbatim>\<open>v.k\<close> on a value that is neither null nor undefined. The names this program reads
  (\<^verbatim>\<open>usage\<close>, \<^verbatim>\<open>choices\<close>, \<^verbatim>\<open>message\<close>, \<^verbatim>\<open>content\<close>, \<^verbatim>\<open>results\<close>, \<^verbatim>\<open>success\<close>, ...) are
  properties of no prototype, so only an object can have them.\<close>

fun property :: "json \<Rightarrow> string \<Rightarrow> json option" where
  "property (JObj ms) k = map_of ms k"
| "property _ k = None"

text \<open>\<^verbatim>\<open>v[0]\<close> on a value that is neither null nor undefined.\<close>

fun index0 :: "json \<Rightarrow> json option" where
  "index0 (JArr xs) = (case xs of [] \<Rightarrow> None | x # _ \<Rightarrow> Some x)"
| "index0 (JStr s) = (case s of [] \<Rightarrow> None | c # _ \<Rightarrow> Some (JStr [c]))"
| "index0 (JObj ms) = map_of ms ''0''"
| "index0 _ = None"

text \<open>Truthiness, as \<^verbatim>\<open>if (v)\<close>, \<^verbatim>\<open>!v\<close>, \<^verbatim>\<open>a && b\<close> and \<^verbatim>\<open>a || b\<close> test it.\<close>

fun truthy :: "json \<Rightarrow> bool" where
  "truthy JNull = False"
| "truthy (JBool b) = b"
| "truthy (JNum n) = (n \<noteq> 0)"
| "truthy (JStr s) = (s \<noteq> [])"
| "truthy (JArr xs) = True"
| "truthy (JObj ms) = True"

definition truthy_opt :: "json option \<Rightarrow> bool" where
  "truthy_opt v = (case v of None \<Rightarrow> False | Some x \<Rightarrow> truthy x)"

text \<open>\<^verbatim>\<open>n += (v || 0)\<close> for a number \<open>n\<close>: the summand. A member that is a non-empty
  string, an array or an object would make \<^verbatim>\<open>+=\<close> concatenate strings; the backend's
  interface gives numbers there and the model reads such a member as 0.\<close>

fun or_zero :: "json option \<Rightarrow> rat" where
  "or_zero (Some (JNum n)) = n"
| "or_zero (Some (JBool True)) = 1"
| "or_zero _ = 0"

subsection \<open>Strings\<close>

definition startsWith :: "string \<Rightarrow> string \<Rightarrow> bool" where
  "startsWith s p = (take (length p) s = p)"


fun str_includes :: "string \<Rightarrow> string \<Rightarrow> bool" where
  "str_includes [] p = (p = [])"
| "str_includes (c # cs) p = (startsWith (c # cs) p \<or> str_includes cs p)"

text \<open>\<^verbatim>\<open>s.replace('_', ' ')\<close> with a string pattern replaces the first occurrence only.\<close>

fun replace_first :: "char \<Rightarrow> char \<Rightarrow> string \<Rightarrow> string" where
  "replace_first a b [] = []"
| "replace_first a b (c # cs) = (if c = a then b # cs else c # replace_first a b cs)"

definition upper_char :: "char \<Rightarrow> char" where
  "upper_char c =
     (if (97::nat) \<le> of_char c \<and> of_char c \<le> (122::nat) then char_of (of_char c - (32::nat)) else c)"

definition toUpperCase :: "string \<Rightarrow> string" where
  "toUpperCase s = map upper_char s"

text \<open>The decimal numeral of a natural number, as a template literal prints it.\<close>

fun show_nat :: "nat \<Rightarrow> string" where
  "show_nat n =
     (if n < 10 then [char_of (48 + n)] else show_nat (n div 10) @ [char_of (48 + n mod 10)])"

declare show_nat.simps [simp del]

definition apostrophe :: string where
  "apostrophe = [CHR 0x27]"

text \<open>
  \<^verbatim>\<open>content.match(/\{[\s\S]*\}/)\<close>: the match starts at the first \<^verbatim>\<open>{\<close> and, the star being
  greedy, ends at the last \<^verbatim>\<open>}\<close> of the string; there is no match when no \<^verbatim>\<open>}\<close>
  follows the first \<^verbatim>\<open>{\<close>.
\<close>

definition match_braces :: "string \<Rightarrow> string option" where
  "match_braces content =
     (case dropWhile (\<lambda>c. c \<noteq> CHR ''{'') content of
        [] \<Rightarrow> None
      | b # rest \<Rightarrow>
          (if CHR ''}'' \<in> set rest
           then Some (b # rev (dropWhile (\<lambda>c. c \<noteq> CHR ''}'') (rev rest)))
           else None))"

section \<open>Configuration and the finder object\<close>

definition MODELS :: "(string \<times> string) list" where
  "MODELS =
     [(''gpt-4o'', ''openai/gpt-4o:online''),
      (''gpt-4o-mini'', ''openai/gpt-4o-mini:online''),
      (''anthropic/claude-sonnet-4'', ''anthropic/claude-sonnet-4:online''),
      (''gemini-2.5-pro'', ''google/gemini-2.5-pro-preview:online''),
      (''gemini-2.0-flash-001'', ''google/gemini-2.0-flash-001''),
      (''qwen-2.5-72b'', ''qwen/qwen-2.5-72b-instruct:online''),
      (''llama-3.1-70b'', ''meta-llama/llama-3.1-70b-instruct:online''),
      (''perplexity/sonar-deep-research'', ''perplexity/sonar-deep-research'')]"

definition DEFAULT_MODEL :: string where
  "DEFAULT_MODEL = ''gpt-4o-mini''"

definition INITIAL_BRAND_COUNT :: nat where
  "INITIAL_BRAND_COUNT = 10"

definition OUTPUT_DIR :: string where
  "OUTPUT_DIR = ''./results''"

text \<open>\<^verbatim>\<open>this.tokenUsage\<close>: the running counters of one finder.\<close>

record token_usage =
  totalPromptTokens :: rat
  totalCompletionTokens :: rat
  totalTokens :: rat
  totalCost :: rat
  requestCount :: nat
  brandTokens :: "json list"

record finder =
  modelKey :: string
  modelName :: string
  tokenUsage :: token_usage

text \<open>The constructor, given the value of the environment variable
  \<^verbatim>\<open>OPENROUTER_API_KEY\<close> (\<open>None\<close> or the empty string when it is not set). The creation
  of the output directory, its last step, is left out.\<close>

definition new_finder :: "string option \<Rightarrow> string \<Rightarrow> js_error + finder" where
  "new_finder api_key mk =
     (case map_of MODELS mk of
        None \<Rightarrow>
          Inl (Error (''Model '' @ apostrophe @ mk @ apostrophe @ '' not found. Available models: ''
                 @ concat (map (\<lambda>(i, k). (if i = 0 then [] else '', '') @ k)
                            (enumerate 0 (map fst MODELS)))))
      | Some mn \<Rightarrow>
          (if api_key = None \<or> api_key = Some []
           then Inl (Error ''OPENROUTER_API_KEY environment variable is required'')
           else Inr \<lparr>modelKey = mk, modelName = mn,
                     tokenUsage = \<lparr>totalPromptTokens = 0, totalCompletionTokens = 0,
                                    totalTokens = 0, totalCost = 0, requestCount = 0,
                                    brandTokens = []\<rparr>\<rparr>))"

text \<open>\<^verbatim>\<open>modelKey.replace(/[\/\\:*?"<>|]/g, '_')\<close>\<close>

definition unsafe_chars :: "char list" where
  "unsafe_chars =
     [CHR ''/'', CHR 0x5C, CHR '':'', CHR ''*'', CHR ''?'', CHR 0x22, CHR ''<'', CHR ''>'', CHR ''|'']"

definition safeModelKey :: "string \<Rightarrow> string" where
  "safeModelKey mk = map (\<lambda>c. if c \<in> set unsafe_chars then CHR ''_'' else c) mk"

section \<open>The Query Client\<close>

text \<open>
  What the network does to one request: \<^verbatim>\<open>fetch\<close> rejects (a transport failure, or the
  abort of \<^verbatim>\<open>AbortSignal.timeout\<close>), or it resolves to a response that is not \<^verbatim>\<open>ok\<close>
  (with its status and what \<^verbatim>\<open>response.text()\<close> gives), or to one that is \<^verbatim>\<open>ok\<close> (with
  what \<^verbatim>\<open>response.json()\<close> gives). Reading the body can reject too.
\<close>

datatype fetch_outcome =
    FetchRejects js_error
  | NotOk nat "js_error + string"
  | Ok "js_error + json"

definition makeOpenRouterRequest :: "finder \<Rightarrow> fetch_outcome \<Rightarrow> (js_error + json) \<times> finder" where
  "makeOpenRouterRequest f out =
     (case out of
        FetchRejects e \<Rightarrow> (Inl e, f)
      | NotOk status body \<Rightarrow>
          (case body of
             Inl e \<Rightarrow> (Inl e, f)
           | Inr errorText \<Rightarrow>
               (Inl (Error (''OpenRouter API error: '' @ show_nat status @ '' - '' @ errorText)), f))
      | Ok body \<Rightarrow>
          (case body of
             Inl e \<Rightarrow> (Inl e, f)
           | Inr responseData \<Rightarrow>
               (if responseData = JNull
                then (Inl (Error (''Cannot read properties of null (reading ''
                                   @ apostrophe @ ''usage'' @ apostrophe @ '')'')), f)
                else
                  (case property responseData ''usage'' of
                     None \<Rightarrow> (Inr responseData, f)
                   | Some u \<Rightarrow>
                       (if truthy u
                        then
                          (let t = tokenUsage f in
                           (Inr responseData,
                            f\<lparr>tokenUsage :=
                                t\<lparr>totalPromptTokens :=
                                     totalPromptTokens t + or_zero (property u ''prompt_tokens''),
                                   totalCompletionTokens :=
                                     totalCompletionTokens t + or_zero (property u ''completion_tokens''),
                                   totalTokens := totalTokens t + or_zero (property u ''total_tokens''),
                                   totalCost := totalCost t + or_zero (property u ''cost''),
                                   requestCount := requestCount t + 1\<rparr>\<rparr>))
                        else (Inr responseData, f))))))"

text \<open>\<^verbatim>\<open>response.choices[0]?.message?.content\<close>\<close>

definition first_content :: "json \<Rightarrow> js_error + json option" where
  "first_content response =
     (case property response ''choices'' of
        None \<Rightarrow>
          Inl (Error (''Cannot read properties of undefined (reading ''
                       @ apostrophe @ ''0'' @ apostrophe @ '')''))
      | Some choices \<Rightarrow>
          (if choices = JNull
           then Inl (Error (''Cannot read properties of null (reading ''
                             @ apostrophe @ ''0'' @ apostrophe @ '')''))
           else
             (case index0 choices of
                None \<Rightarrow> Inr None
              | Some c \<Rightarrow>
                  (if c = JNull then Inr None
                   else
                     (case property c ''message'' of
                        None \<Rightarrow> Inr None
                      | Some m \<Rightarrow>
                          (if m = JNull then Inr None else Inr (property m ''content'')))))))"

definition tokensUsed :: "token_usage \<Rightarrow> token_usage \<Rightarrow> (string \<times> json) list" where
  "tokensUsed before after =
     [(''prompt_tokens'', JNum (totalPromptTokens after - totalPromptTokens before)),
      (''completion_tokens'', JNum (totalCompletionTokens after - totalCompletionTokens before)),
      (''total_tokens'', JNum (totalTokens after - totalTokens before)),
      (''cost'', JNum (totalCost after - totalCost before))]"

definition null_info :: json where
  "null_info = JObj [(''founded'', JNull), (''location'', JNull), (''specialties'', JNull)]"

text \<open>The object the parse-success path returns: the backend's object with six
  members assigned, in the order of the source.\<close>

definition success_record ::
  "(string \<times> json) list \<Rightarrow> string \<Rightarrow> string \<Rightarrow> string \<Rightarrow> (string \<times> json) list \<Rightarrow> json" where
  "success_record brandData mk now content used =
     JObj (AList.update ''token_usage'' (JObj used)
          (AList.update ''success'' (JBool True)
          (AList.update ''error_type'' JNull
          (AList.update ''raw_response'' (JStr content)
          (AList.update ''timestamp'' (JStr now)
          (AList.update ''model_used'' (JStr mk) brandData))))))"

definition fallback_record ::
  "string \<Rightarrow> string \<Rightarrow> string \<Rightarrow> string \<Rightarrow> (string \<times> json) list \<Rightarrow> json" where
  "fallback_record brandName mk now content used =
     JObj [(''brand_name'', JStr brandName),
           (''website_url'', JNull),
           (''description'', JStr (take 200 content @ ''...'')),
           (''additional_info'', null_info),
           (''search_confidence'', JStr ''low''),
           (''notes'', JStr ''Could not parse structured response from model''),
           (''model_used'', JStr mk),
           (''timestamp'', JStr now),
           (''raw_response'', JStr content),
           (''error_type'', JStr ''parse_error''),
           (''success'', JBool False),
           (''token_usage'', JObj used)]"

text \<open>
  The body of the \<^verbatim>\<open>try\<close> block: \<open>Inl\<close> is an exception that reaches the \<^verbatim>\<open>catch\<close>.
  \<^verbatim>\<open>JSON.parse\<close> of a text that starts with \<^verbatim>\<open>{\<close> returns an object or throws; the
  inner \<^verbatim>\<open>try\<close> sends a throw to the fallback. (The class body is strict code: were
  the value a primitive, the assignment of \<^verbatim>\<open>model_used\<close> would throw inside the same
  inner \<^verbatim>\<open>try\<close>.) The timestamp \<open>now\<close> is what \<^verbatim>\<open>new Date().toISOString()\<close> gives.
\<close>

definition findBrandWebsite_try ::
  "platform \<Rightarrow> finder \<Rightarrow> string \<Rightarrow> fetch_outcome \<Rightarrow> string \<Rightarrow> (js_error + json) \<times> finder" where
  "findBrandWebsite_try P f brandName out now =
     (let tokensBefore = tokenUsage f in
      (case makeOpenRouterRequest f out of
         (Inl e, f1) \<Rightarrow> (Inl e, f1)
       | (Inr response, f1) \<Rightarrow>
           (case first_content response of
              Inl e \<Rightarrow> (Inl e, f1)
            | Inr content \<Rightarrow>
                (let used = tokensUsed tokensBefore (tokenUsage f1);
                     t1 = tokenUsage f1;
                     f2 = f1\<lparr>tokenUsage :=
                              t1\<lparr>brandTokens :=
                                   brandTokens t1 @ [JObj ((''brand_name'', JStr brandName) # used)]\<rparr>\<rparr>
                 in
                   (if \<not> truthy_opt content
                    then (Inl (Error ''No content in response from model''), f2)
                    else
                      (case content of
                         Some (JStr s) \<Rightarrow>
                           (case match_braces s of
                              None \<Rightarrow> (Inr (fallback_record brandName (modelKey f) now s used), f2)
                            | Some m \<Rightarrow>
                                (case JSON_parse P m of
                                   Some (JObj brandData) \<Rightarrow>
                                     (Inr (success_record brandData (modelKey f) now s used), f2)
                                 | _ \<Rightarrow> (Inr (fallback_record brandName (modelKey f) now s used), f2)))
                       | _ \<Rightarrow> (Inl (Error ''content.match is not a function''), f2)))))))"

text \<open>The \<^verbatim>\<open>catch\<close> block: the error type is read off the message.\<close>

definition errorType_of :: "string \<Rightarrow> string" where
  "errorType_of msg =
     (if str_includes msg ''OpenRouter API error'' then ''api_error''
      else if str_includes msg ''timeout'' \<or> str_includes msg ''network'' then ''network_error''
      else if str_includes msg ''No content in response'' then ''model_error''
      else if str_includes msg ''fetch'' then ''connection_error''
      else ''unknown_error'')"

definition error_record :: "string \<Rightarrow> string \<Rightarrow> string \<Rightarrow> js_error \<Rightarrow> json" where
  "error_record brandName mk now e =
     (let errorType = errorType_of (error_message e) in
      JObj [(''brand_name'', JStr brandName),
            (''website_url'', JNull),
            (''description'', JNull),
            (''additional_info'', null_info),
            (''search_confidence'', JStr ''low''),
            (''notes'', JStr (toUpperCase (replace_first CHR ''_'' CHR '' '' errorType)
                              @ '': '' @ error_message e)),
            (''model_used'', JStr mk),
            (''timestamp'', JStr now),
            (''raw_response'', JNull),
            (''error_type'', JStr errorType),
            (''success'', JBool False),
            (''token_usage'',
               JObj [(''prompt_tokens'', JNum 0), (''completion_tokens'', JNum 0),
                     (''total_tokens'', JNum 0), (''cost'', JNum 0)])])"

definition findBrandWebsite ::
  "platform \<Rightarrow> finder \<Rightarrow> string \<Rightarrow> fetch_outcome \<Rightarrow> string \<Rightarrow> json \<times> finder" where
  "findBrandWebsite P f brandName out now =
     (case findBrandWebsite_try P f brandName out now of
        (Inr r, f') \<Rightarrow> (r, f')
      | (Inl e, f') \<Rightarrow> (error_record brandName (modelKey f) now e, f'))"

section \<open>The Completion Store\<close>


text \<open>\<^verbatim>\<open>path.join(CONFIG.OUTPUT_DIR, file)\<close>, which normalises the leading \<^verbatim>\<open>./\<close> away.\<close>

definition path_join_OUTPUT_DIR :: "string \<Rightarrow> string" where
  "path_join_OUTPUT_DIR file = drop 2 OUTPUT_DIR @ ''/'' @ file"


text \<open>\<^verbatim>\<open>xs.filter(p)\<close> with a callback that can throw.\<close>

fun js_filter :: "(json \<Rightarrow> bool option) \<Rightarrow> json list \<Rightarrow> json list option" where
  "js_filter p [] = Some []"
| "js_filter p (x # xs) =
     (case p x of
        None \<Rightarrow> None
      | Some b \<Rightarrow>
          (case js_filter p xs of
             None \<Rightarrow> None
           | Some ys \<Rightarrow> Some (if b then x # ys else ys)))"











section \<open>Run Records\<close>

text \<open>Number formatting on exact rationals: \<^verbatim>\<open>x.toFixed(d)\<close> (below 1e21),
  \<^verbatim>\<open>parseFloat(x.toFixed(d))\<close> and \<^verbatim>\<open>Math.round(x)\<close>.\<close>

definition toFixed :: "nat \<Rightarrow> rat \<Rightarrow> string" where
  "toFixed d x =
     (let n = nat \<lfloor>\<bar>x\<bar> * 10 ^ d + 1 / 2\<rfloor>;
          frac = show_nat (n mod 10 ^ d)
      in (if x < 0 then ''-'' else [])
         @ show_nat (n div 10 ^ d)
         @ (if d = 0 then [] else ''.'' @ replicate (d - length frac) CHR ''0'' @ frac))"

definition parseFloat_toFixed :: "nat \<Rightarrow> rat \<Rightarrow> rat" where
  "parseFloat_toFixed d x =
     (if x < 0 then - 1 else 1) * rat_of_int \<lfloor>\<bar>x\<bar> * 10 ^ d + 1 / 2\<rfloor> / 10 ^ d"

definition Math_round :: "rat \<Rightarrow> rat" where
  "Math_round x = rat_of_int \<lfloor>x + 1 / 2\<rfloor>"

text \<open>\<^verbatim>\<open>`${((successful.length / results.length) * 100).toFixed(1)}%`\<close>; the quotient
  0/0 is NaN.\<close>

definition success_rate :: "nat \<Rightarrow> nat \<Rightarrow> string" where
  "success_rate s n =
     (if n = 0 then ''NaN'' else toFixed 1 (rat_of_nat s / rat_of_nat n * 100)) @ ''%''"

text \<open>The callbacks \<^verbatim>\<open>r => r.success === true\<close> and \<^verbatim>\<open>r => r.success === false\<close>.\<close>

definition success_is :: "bool \<Rightarrow> json \<Rightarrow> bool option" where
  "success_is b r = (if r = JNull then None else Some (property r ''success'' = Some (JBool b)))"

text \<open>\<^verbatim>\<open>result.error_type || 'unknown'\<close>, as a property key.\<close>

definition error_key :: "platform \<Rightarrow> json \<Rightarrow> string" where
  "error_key P r =
     (case property r ''error_type'' of
        None \<Rightarrow> ''unknown''
      | Some v \<Rightarrow>
          (if truthy v then (case v of JStr s \<Rightarrow> s | _ \<Rightarrow> ToString P v) else ''unknown''))"

text \<open>\<^verbatim>\<open>failed.forEach(result => { ...; errorTypes[errorType] = (errorTypes[errorType] || 0) + 1; })\<close>
  on an object that starts empty. (Keys that name a member of \<^verbatim>\<open>Object.prototype\<close> are
  outside the model.)\<close>

fun count_errors :: "platform \<Rightarrow> json list \<Rightarrow> (string \<times> nat) list \<Rightarrow> (string \<times> nat) list" where
  "count_errors P [] errorTypes = errorTypes"
| "count_errors P (r # rs) errorTypes =
     count_errors P rs
       (AList.update (error_key P r)
          ((case map_of errorTypes (error_key P r) of None \<Rightarrow> 0 | Some c \<Rightarrow> c) + 1) errorTypes)"

definition error_breakdown :: "platform \<Rightarrow> json list \<Rightarrow> json" where
  "error_breakdown P failed = JObj (map (\<lambda>(k, c). (k, JNum (rat_of_nat c))) (count_errors P failed []))"

text \<open>\<^verbatim>\<open>r => r.error_type === 'model_error' || r.error_type === 'api_error'\<close>\<close>

definition is_model_issue :: "json \<Rightarrow> bool" where
  "is_model_issue r =
     (property r ''error_type'' = Some (JStr ''model_error'')
      \<or> property r ''error_type'' = Some (JStr ''api_error''))"

text \<open>\<^verbatim>\<open>new Date().toISOString().replace(/[:.]/g, '-')\<close>\<close>

definition dashed :: "string \<Rightarrow> string" where
  "dashed t = map (\<lambda>c. if c = CHR '':'' \<or> c = CHR ''.'' then CHR ''-'' else c) t"

text \<open>The files written: each entry is a path and the value that \<^verbatim>\<open>JSON.stringify\<close>
  serialises into it.\<close>

type_synonym disk = "(string \<times> json) list"

text \<open>The \<^verbatim>\<open>output\<close> object of \<^verbatim>\<open>saveResults\<close>, lines 377 to 413; \<open>None\<close> when a
  \<^verbatim>\<open>filter\<close> callback throws.\<close>

definition saveResults_output :: "platform \<Rightarrow> finder \<Rightarrow> json list \<Rightarrow> string \<Rightarrow> json option" where
  "saveResults_output P f results now =
     (case js_filter (success_is True) results of
        None \<Rightarrow> None
      | Some successful \<Rightarrow>
          (case js_filter (success_is False) results of
             None \<Rightarrow> None
           | Some failed \<Rightarrow>
               (let t = tokenUsage f;
                    estimatedCostUSD = totalCost t * (1 / 1000000)
                in Some (JObj
                  [(''metadata'', JObj
                      [(''model_used'', JStr (modelKey f)),
                       (''model_name'', JStr (modelName f)),
                       (''timestamp'', JStr now),
                       (''total_brands_processed'', JNum (rat_of_nat (length results))),
                       (''successful_searches'', JNum (rat_of_nat (length successful))),
                       (''failed_searches'', JNum (rat_of_nat (length failed))),
                       (''success_rate'', JStr (success_rate (length successful) (length results))),
                       (''error_breakdown'', error_breakdown P failed),
                       (''model_availability'',
                          JStr (if length (filter is_model_issue failed) = 0
                                then ''working'' else ''issues_detected'')),
                       (''token_usage'', JObj
                          [(''total_prompt_tokens'', JNum (totalPromptTokens t)),
                           (''total_completion_tokens'', JNum (totalCompletionTokens t)),
                           (''total_tokens'', JNum (totalTokens t)),
                           (''total_cost_credits'', JNum (totalCost t)),
                           (''estimated_cost_usd'', JNum (parseFloat_toFixed 6 estimatedCostUSD)),
                           (''average_tokens_per_brand'',
                              JNum (Math_round (totalTokens t / rat_of_nat (max (requestCount t) 1)))),
                           (''average_cost_per_brand'',
                              JNum (parseFloat_toFixed 2
                                      (totalCost t / rat_of_nat (max (requestCount t) 1)))),
                           (''total_requests'', JNum (rat_of_nat (requestCount t))),
                           (''per_brand_breakdown'', JArr (brandTokens t))])]),
                   (''results'', JArr results)]))))"

text \<open>\<^verbatim>\<open>saveResults(results)\<close>: the two timestamps are the two calls of \<^verbatim>\<open>new Date()\<close>,
  \<open>wr\<close> is the exception of \<^verbatim>\<open>fs.writeFileSync\<close>, if it throws. An exception leaves
  the method.\<close>

definition saveResults ::
  "platform \<Rightarrow> finder \<Rightarrow> json list \<Rightarrow> string \<Rightarrow> string \<Rightarrow> js_error option \<Rightarrow> disk
     \<Rightarrow> (js_error + string) \<times> disk" where
  "saveResults P f results now1 now2 wr d =
     (let filename = ''brand_websites_'' @ safeModelKey (modelKey f) @ ''_'' @ dashed now1 @ ''.json'';
          path = path_join_OUTPUT_DIR filename
      in (case saveResults_output P f results now2 of
            None \<Rightarrow>
              (Inl (Error (''Cannot read properties of null (reading ''
                            @ apostrophe @ ''success'' @ apostrophe @ '')'')), d)
          | Some output \<Rightarrow>
              (case wr of
                 Some e \<Rightarrow> (Inl e, d)
               | None \<Rightarrow> (Inr path, d @ [(path, output)]))))"

section \<open>The Interruption Handler\<close>

text \<open>
  The module's global variables. \<^verbatim>\<open>currentFinder\<close> is null or refers to the finder of
  the run: the model keeps whether it is set, and the handler is given the present
  state of that finder. \<^verbatim>\<open>currentResults\<close> is first the array \<^verbatim>\<open>results\<close> itself and
  then, after each brand, a copy of it; no signal can be handled between the
  \<^verbatim>\<open>push\<close> and the copy, so the handler sees the same elements either way.
\<close>

record globals =
  isShuttingDown :: bool
  currentResults :: "json list"
  currentFinder :: bool

text \<open>What the handler meets when it runs: the two timestamps of its \<^verbatim>\<open>new Date()\<close>
  calls and the exception of \<^verbatim>\<open>fs.writeFileSync\<close>, if it throws.\<close>

record signal_env =
  filename_time :: string
  metadata_time :: string
  write_error :: "js_error option"

text \<open>The \<^verbatim>\<open>output\<close> object of \<^verbatim>\<open>gracefulShutdown\<close>, lines 537 to 571. The finder's
  \<^verbatim>\<open>tokenUsage\<close> is an object, hence truthy.\<close>

definition partial_output :: "platform \<Rightarrow> finder \<Rightarrow> json list \<Rightarrow> string \<Rightarrow> json option" where
  "partial_output P f results now =
     (case js_filter (success_is True) results of
        None \<Rightarrow> None
      | Some successful \<Rightarrow>
          (case js_filter (success_is False) results of
             None \<Rightarrow> None
           | Some failed \<Rightarrow>
               (let t = tokenUsage f
                in Some (JObj
                  [(''metadata'', JObj
                      [(''model_used'', JStr (modelKey f)),
                       (''model_name'', JStr (modelName f)),
                       (''timestamp'', JStr now),
                       (''total_brands_processed'', JNum (rat_of_nat (length results))),
                       (''successful_searches'', JNum (rat_of_nat (length successful))),
                       (''failed_searches'', JNum (rat_of_nat (length failed))),
                       (''success_rate'', JStr (success_rate (length successful) (length results))),
                       (''error_breakdown'', error_breakdown P failed),
                       (''model_availability'',
                          JStr (if length (filter is_model_issue failed) = 0
                                then ''working'' else ''issues_detected'')),
                       (''status'', JStr ''PARTIAL_RESULTS_DUE_TO_INTERRUPTION''),
                       (''token_usage'', JObj
                          [(''total_prompt_tokens'', JNum (totalPromptTokens t)),
                           (''total_completion_tokens'', JNum (totalCompletionTokens t)),
                           (''total_tokens'', JNum (totalTokens t)),
                           (''total_cost_credits'', JNum (totalCost t)),
                           (''estimated_cost_usd'',
                              JNum (parseFloat_toFixed 6 (totalCost t * (1 / 1000000)))),
                           (''average_tokens_per_brand'',
                              JNum (Math_round (totalTokens t / rat_of_nat (max (requestCount t) 1)))),
                           (''average_cost_per_brand'',
                              JNum (parseFloat_toFixed 2
                                      (totalCost t / rat_of_nat (max (requestCount t) 1)))),
                           (''total_requests'', JNum (rat_of_nat (requestCount t))),
                           (''per_brand_breakdown'', JArr (brandTokens t))])]),
                   (''results'', JArr results)]))))"

definition partial_path :: "finder \<Rightarrow> signal_env \<Rightarrow> string" where
  "partial_path f se =
     path_join_OUTPUT_DIR
       (''brand_websites_'' @ safeModelKey (modelKey f) @ ''_PARTIAL_'' @ dashed (filename_time se)
          @ ''.json'')"

text \<open>
  \<^verbatim>\<open>gracefulShutdown(signal)\<close>, lines 520 to 590. Every path ends in \<^verbatim>\<open>process.exit\<close>:
  the result is the globals and the disk as the handler leaves them and the exit code.
  An exception inside its \<^verbatim>\<open>try\<close> is caught and printed.
\<close>

definition gracefulShutdown ::
  "platform \<Rightarrow> signal_env \<Rightarrow> globals \<Rightarrow> finder \<Rightarrow> disk \<Rightarrow> globals \<times> disk \<times> nat" where
  "gracefulShutdown P se g f d =
     (if isShuttingDown g then (g, d, 1)
      else
        (let g' = g\<lparr>isShuttingDown := True\<rparr> in
         if currentFinder g' \<and> length (currentResults g') > 0
         then
           (case partial_output P f (currentResults g') (metadata_time se) of
              None \<Rightarrow> (g', d, 0)
            | Some output \<Rightarrow>
                (case write_error se of
                   Some e \<Rightarrow> (g', d, 0)
                 | None \<Rightarrow> (g', d @ [(partial_path f se, output)], 0)))
         else (g', d, 0)))"

section \<open>The Batch Runner\<close>

text \<open>
  The program is one thread with an event loop. A signal handler runs only while the
  program waits: in \<^verbatim>\<open>processBrands\<close>, while the request of \<^verbatim>\<open>findBrandWebsite\<close> is
  pending and while the one-second delay is pending. An awaited operation therefore
  either settles, or a signal is delivered first and the handler runs.
\<close>

datatype 'a awaited = Settles 'a | Signal signal_env

text \<open>What happens in iteration \<open>i\<close>: to the request (the network's outcome and the
  time of the record's timestamp) and to the delay after it.\<close>

record iteration =
  request :: "(fetch_outcome \<times> string) awaited"
  delay :: "unit awaited"

text \<open>How a call ends: it returns, or the process exits with a code.\<close>

datatype 'a ending = Returns 'a | Exit nat

text \<open>\<^verbatim>\<open>xs.slice(start, end)\<close> for integers: a negative index counts from the end.\<close>

definition slice :: "'a list \<Rightarrow> int \<Rightarrow> int \<Rightarrow> 'a list" where
  "slice xs s e =
     (let n = int (length xs);
          k = (if s < 0 then max (n + s) 0 else min s n);
          final = (if e < 0 then max (n + e) 0 else min e n)
      in take (nat (final - k)) (drop (nat k) xs))"

text \<open>The \<^verbatim>\<open>for\<close> loop of \<^verbatim>\<open>processBrands\<close>, lines 345 to 365, from index \<open>i\<close> on:
  \<open>todo\<close> is \<^verbatim>\<open>brandsToProcess\<close> from \<open>i\<close>.\<close>

fun brands_loop ::
  "platform \<Rightarrow> (nat \<Rightarrow> iteration) \<Rightarrow> nat \<Rightarrow> string list \<Rightarrow> json list \<Rightarrow> finder \<Rightarrow> globals \<Rightarrow> disk
     \<Rightarrow> json list ending \<times> finder \<times> globals \<times> disk" where
  "brands_loop P env i [] results f g d = (Returns results, f, g, d)"
| "brands_loop P env i (brand # todo) results f g d =
     (if isShuttingDown g then (Returns results, f, g, d)
      else
        (case request (env i) of
           Signal se \<Rightarrow>
             (case gracefulShutdown P se g f d of (g', d', code) \<Rightarrow> (Exit code, f, g', d'))
         | Settles (out, now) \<Rightarrow>
             (case findBrandWebsite P f brand out now of
                (result, f') \<Rightarrow>
                  (let results' = results @ [result];
                       g' = g\<lparr>currentResults := results'\<rparr>
                   in
                     if todo \<noteq> [] \<and> \<not> isShuttingDown g'
                     then
                       (case delay (env i) of
                          Signal se \<Rightarrow>
                            (case gracefulShutdown P se g' f' d of
                               (g'', d', code) \<Rightarrow> (Exit code, f', g'', d'))
                        | Settles u \<Rightarrow> brands_loop P env (i + 1) todo results' f' g' d)
                     else brands_loop P env (i + 1) todo results' f' g' d))))"

definition processBrands ::
  "platform \<Rightarrow> (nat \<Rightarrow> iteration) \<Rightarrow> finder \<Rightarrow> string list \<Rightarrow> int \<Rightarrow> int \<Rightarrow> globals \<Rightarrow> disk
     \<Rightarrow> json list ending \<times> finder \<times> globals \<times> disk" where
  "processBrands P env f brands startIndex count g d =
     (let brandsToProcess = slice brands startIndex (startIndex + count)
      in brands_loop P env 0 brandsToProcess [] f
           (g\<lparr>currentResults := [], currentFinder := True\<rparr>) d)"

section \<open>Vocabulary of the properties\<close>

text \<open>The error types this program knows: the keys of the table in \<^verbatim>\<open>printSummary\<close>,
  lines 467 to 474.\<close>

definition failure_kinds :: "string list" where
  "failure_kinds =
     [''api_error'', ''model_error'', ''network_error'', ''connection_error'', ''parse_error'',
      ''unknown_error'']"

definition degraded :: "json \<Rightarrow> bool" where
  "degraded r =
     (property r ''success'' = Some (JBool False)
      \<and> property r ''error_type'' \<in> set (map (\<lambda>k. Some (JStr k)) failure_kinds))"

definition succeeded :: "json \<Rightarrow> bool" where
  "succeeded r =
     (property r ''success'' = Some (JBool True) \<and> property r ''error_type'' = Some JNull)"

text \<open>A runtime for the concrete runs below: \<^verbatim>\<open>JSON.parse\<close> is given by the table of
  the texts it is applied to in the run (it throws on every other text), and \<^verbatim>\<open>ToString\<close>
  is applied to no value but a string or an object.\<close>

definition table_runtime :: "(string \<times> json) list \<Rightarrow> platform" where
  "table_runtime tbl =
     \<lparr>JSON_parse = map_of tbl,
      ToString = (\<lambda>v. case v of JStr s \<Rightarrow> s | _ \<Rightarrow> ''[object Object]'')\<rparr>"

definition mini_finder :: finder where
  "mini_finder =
     \<lparr>modelKey = ''gpt-4o-mini'', modelName = ''openai/gpt-4o-mini:online'',
      tokenUsage = \<lparr>totalPromptTokens = 0, totalCompletionTokens = 0, totalTokens = 0,
                     totalCost = 0, requestCount = 0, brandTokens = []\<rparr>\<rparr>"

definition chat_response :: "string \<Rightarrow> json" where
  "chat_response content =
     JObj [(''choices'', JArr [JObj [(''message'', JObj [(''role'', JStr ''assistant''),
                                                          (''content'', JStr content)])]]),
           (''usage'', JObj [(''prompt_tokens'', JNum 120), (''completion_tokens'', JNum 80),
                             (''total_tokens'', JNum 200), (''cost'', JNum 3)])]"

definition now0 :: string where
  "now0 = ''2024-01-15T10:35:22.456Z''"

text \<open>The members that \<^verbatim>\<open>findBrandWebsite\<close> assigns on the parse-success path, lines 259
  to 264.\<close>

definition controlled_fields :: "string list" where
  "controlled_fields =
     [''model_used'', ''timestamp'', ''raw_response'', ''error_type'', ''success'', ''token_usage'']"



text \<open>Two answers of a backend and the objects \<^verbatim>\<open>JSON.parse\<close> makes of them.\<close>

definition acme_text :: string where
  "acme_text = ''{\"brand_name\": \"Acme Blades\", \"website_url\": \"https://acmeblades.com\"}''"

definition acme_object :: json where
  "acme_object =
     JObj [(''brand_name'', JStr ''Acme Blades''), (''website_url'', JStr ''https://acmeblades.com'')]"



text \<open>
  A run without interruption: every request and every delay of the first \<open>n\<close>
  iterations settles.
\<close>

definition settles :: "iteration \<Rightarrow> bool" where
  "settles it =
     ((case request it of Settles x \<Rightarrow> True | Signal se \<Rightarrow> False)
      \<and> (case delay it of Settles u \<Rightarrow> True | Signal se \<Rightarrow> False))"

definition uninterrupted :: "(nat \<Rightarrow> iteration) \<Rightarrow> nat \<Rightarrow> bool" where
  "uninterrupted env n = list_all (\<lambda>i. settles (env i)) [0..<n]"

text \<open>
  The Query Client applied to the brands of a list one after the other, each request
  with the outcome the environment has for its position, the finder's counters carried
  from one call to the next: what processing the list sequentially means.
\<close>

fun query_all ::
  "platform \<Rightarrow> (nat \<Rightarrow> iteration) \<Rightarrow> nat \<Rightarrow> finder \<Rightarrow> string list \<Rightarrow> json list \<times> finder" where
  "query_all P env i f [] = ([], f)"
| "query_all P env i f (brand # todo) =
     (case request (env i) of
        Signal se \<Rightarrow> ([], f)
      | Settles (out, now) \<Rightarrow>
          (case findBrandWebsite P f brand out now of
             (r, f') \<Rightarrow>
               (case query_all P env (Suc i) f' todo of (rs, f'') \<Rightarrow> (r # rs, f''))))"

text \<open>Environments and globals of the concrete runs: one in which every request has
  the same outcome and nothing interrupts, one with a signal during the request of
  iteration \<open>k\<close>, and the globals as the module initialises them.\<close>

definition quiet :: "fetch_outcome \<times> string \<Rightarrow> nat \<Rightarrow> iteration" where
  "quiet x i = \<lparr>request = Settles x, delay = Settles ()\<rparr>"

definition signal_at :: "nat \<Rightarrow> signal_env \<Rightarrow> (nat \<Rightarrow> iteration) \<Rightarrow> nat \<Rightarrow> iteration" where
  "signal_at k se env i = (if i = k then \<lparr>request = Signal se, delay = Settles ()\<rparr> else env i)"

definition idle :: globals where
  "idle = \<lparr>isShuttingDown = False, currentResults = [], currentFinder = False\<rparr>"

definition brand_names :: "json list \<Rightarrow> json option list" where
  "brand_names rs = map (\<lambda>r. property r ''brand_name'') rs"


definition sig0 :: signal_env where
  "sig0 = \<lparr>filename_time = ''2024-01-15T10:35:25.000Z'', metadata_time = ''2024-01-15T10:35:25.001Z'',
           write_error = None\<rparr>"

definition disk_of :: "json list ending \<times> finder \<times> globals \<times> disk \<Rightarrow> disk" where
  "disk_of run = snd (snd (snd run))"

definition persisted_brand_names :: "disk \<Rightarrow> json option list list" where
  "persisted_brand_names d =
     map (\<lambda>(path, v). brand_names (case property v ''results'' of Some (JArr rs) \<Rightarrow> rs | _ \<Rightarrow> [])) d"



text \<open>
  The extraction as the specification words it, to compare with \<open>match_braces\<close>: the
  first top-level brace-delimited object of a text runs from its first \<^verbatim>\<open>{\<close> to the
  \<^verbatim>\<open>}\<close> that closes it, \<open>d\<close> counting the braces open inside.
\<close>

fun balanced_rest :: "nat \<Rightarrow> string \<Rightarrow> string option" where
  "balanced_rest d [] = None"
| "balanced_rest d (c # cs) =
     (if c = CHR ''}''
      then (if d = 0 then Some [c] else map_option ((#) c) (balanced_rest (d - 1) cs))
      else if c = CHR ''{'' then map_option ((#) c) (balanced_rest (Suc d) cs)
      else map_option ((#) c) (balanced_rest d cs))"

definition spec_first_object :: "string \<Rightarrow> string option" where
  "spec_first_object content =
     (case dropWhile (\<lambda>c. c \<noteq> CHR ''{'') content of
        [] \<Rightarrow> None
      | b # rest \<Rightarrow> map_option ((#) b) (balanced_rest 0 rest))"

text \<open>An answer that wraps the object in prose with a second pair of braces, and the
  runtime of the runs on it: \<^verbatim>\<open>JSON.parse\<close> returns the object for the object's text and
  throws on the longer text that \<open>match_braces\<close> cuts out.\<close>

definition acme_answer :: string where
  "acme_answer = ''Here is the result: '' @ acme_text @ '' (source: {web search})''"

definition acme_runtime :: platform where
  "acme_runtime = table_runtime [(acme_text, acme_object)]"

definition two_brands :: "string list" where
  "two_brands = [''Acme Blades'', ''Benchmade'']"

definition acme_ok :: "fetch_outcome \<times> string" where
  "acme_ok = (Ok (Inr (chat_response acme_text)), now0)"

text \<open>The state of a run in which one brand has been processed, and the finder as
  that request left it.\<close>

definition one_done :: globals where
  "one_done =
     \<lparr>isShuttingDown = False,
      currentResults = [fst (findBrandWebsite acme_runtime mini_finder ''Acme Blades'' (fst acme_ok) now0)],
      currentFinder = True\<rparr>"

definition acme_finder :: finder where
  "acme_finder = snd (findBrandWebsite acme_runtime mini_finder ''Acme Blades'' (fst acme_ok) now0)"












section \<open>Properties of the Query Client\<close>

lemma errorType_of_kind: "errorType_of msg \<in> set failure_kinds"
  by (simp add: errorType_of_def failure_kinds_def)

lemma degraded_error_record: "degraded (error_record b mk now e)"
  using errorType_of_kind [of "error_message e"]
  by (simp add: degraded_def error_record_def Let_def)

lemma degraded_fallback_record: "degraded (fallback_record b mk now s used)"
  by (simp add: degraded_def fallback_record_def failure_kinds_def)

lemma succeeded_success_record: "succeeded (success_record bd mk now s used)"
  by (simp add: succeeded_def success_record_def update_conv')

lemma try_Inr_cases:
  assumes "findBrandWebsite_try P f b out now = (Inr r, f')"
    and "\<And>s used. Q (fallback_record b (modelKey f) now s used)"
    and "\<And>bd s used. Q (success_record bd (modelKey f) now s used)"
  shows "Q r"
  using assms
  by (auto simp: findBrandWebsite_try_def Let_def
           split: prod.splits sum.splits option.splits json.splits if_splits)

lemma find_cases:
  assumes "\<And>e. Q (error_record b (modelKey f) now e)"
    and "\<And>s used. Q (fallback_record b (modelKey f) now s used)"
    and "\<And>bd s used. Q (success_record bd (modelKey f) now s used)"
  shows "Q (fst (findBrandWebsite P f b out now))"
proof (cases "findBrandWebsite_try P f b out now")
  case (Pair res f')
  show ?thesis
  proof (cases res)
    case (Inl e)
    with Pair assms(1) show ?thesis by (simp add: findBrandWebsite_def)
  next
    case (Inr r)
    with Pair have "Q r" using try_Inr_cases [of P f b out now r f' Q] assms(2,3) by simp
    with Pair Inr show ?thesis by (simp add: findBrandWebsite_def)
  qed
qed

lemma find_succeeded_or_degraded:
  "succeeded (fst (findBrandWebsite P f b out now)) \<or> degraded (fst (findBrandWebsite P f b out now))"
  by (rule find_cases) (simp_all add: degraded_error_record degraded_fallback_record succeeded_success_record)


lemma new_finder_mini: "new_finder (Some ''sk-or-v1'') ''gpt-4o-mini'' = Inr mini_finder"
  by (simp add: new_finder_def MODELS_def mini_finder_def)

text \<open>
  Claim C2. Every Result Record that \<^verbatim>\<open>findBrandWebsite\<close> produces has a boolean
  \<^verbatim>\<open>success\<close>; when it is true, \<^verbatim>\<open>error_type\<close> is null, and when it is false,
  \<^verbatim>\<open>error_type\<close> is one of api_error, network_error, model_error, connection_error,
  parse_error and unknown_error.
\<close>

theorem success_and_error_type:
  assumes "findBrandWebsite P f brandName out now = (r, f')"
  shows "(property r ''success'' = Some (JBool True) \<longrightarrow> property r ''error_type'' = Some JNull)
       \<and> (property r ''success'' = Some (JBool False)
            \<longrightarrow> property r ''error_type'' \<in> set (map (\<lambda>k. Some (JStr k)) failure_kinds))
       \<and> (property r ''success'' = Some (JBool True) \<or> property r ''success'' = Some (JBool False))"
proof -
  have "succeeded r \<or> degraded r"
    using find_succeeded_or_degraded [of P f brandName out now] assms by simp
  then show ?thesis
    by (auto simp: succeeded_def degraded_def)
qed


theorem success_and_error_type_witness:
  "property (fst (findBrandWebsite (table_runtime []) mini_finder ''Acme Blades''
       (NotOk 429 (Inr ''Too Many Requests'')) ''2024-01-15T10:35:22.456Z'')) ''success''
     = Some (JBool False)
   \<and> property (fst (findBrandWebsite (table_runtime []) mini_finder ''Acme Blades''
       (NotOk 429 (Inr ''Too Many Requests'')) ''2024-01-15T10:35:22.456Z'')) ''error_type''
     \<in> set (map (\<lambda>k. Some (JStr k)) failure_kinds)"
proof -
  obtain r f' where run:
    "findBrandWebsite (table_runtime []) mini_finder ''Acme Blades''
       (NotOk 429 (Inr ''Too Many Requests'')) ''2024-01-15T10:35:22.456Z'' = (r, f')"
    by (cases "findBrandWebsite (table_runtime []) mini_finder ''Acme Blades''
       (NotOk 429 (Inr ''Too Many Requests'')) ''2024-01-15T10:35:22.456Z''")
  have "property (fst (findBrandWebsite (table_runtime []) mini_finder ''Acme Blades''
       (NotOk 429 (Inr ''Too Many Requests'')) ''2024-01-15T10:35:22.456Z'')) ''success''
     = Some (JBool False)"
    by code_simp
  with run have failed: "property r ''success'' = Some (JBool False)" by simp
  with success_and_error_type [OF run]
  have "property r ''error_type'' \<in> set (map (\<lambda>k. Some (JStr k)) failure_kinds)" by blast
  with failed run show ?thesis by simp
qed

text \<open>
  Claim C1. \<^verbatim>\<open>findBrandWebsite\<close> turns every exception of its \<^verbatim>\<open>try\<close> block into a
  Result Record, and every failure path gives a record with \<^verbatim>\<open>success\<close> false and an
  \<^verbatim>\<open>error_type\<close> of the taxonomy: an exception of any kind, a rejected \<^verbatim>\<open>fetch\<close>
  (timeout, transport failure), a status that is not 2xx, a body that cannot be read,
  an empty content, and a content with no JSON object or one that does not parse.
  Every call returns one record, which is either such a record or a successful one.
\<close>

theorem query_client_degrades:
  assumes "findBrandWebsite P f brandName out now = (r, f')"
  shows "(\<forall>e. fst (findBrandWebsite_try P f brandName out now) = Inl e \<longrightarrow> degraded r)
       \<and> (\<forall>e. out = FetchRejects e \<longrightarrow> degraded r)
       \<and> (\<forall>status body. out = NotOk status body \<longrightarrow> degraded r)
       \<and> (\<forall>e. out = Ok (Inl e) \<longrightarrow> degraded r)
       \<and> (\<forall>response content.
             out = Ok (Inr response) \<and> first_content response = Inr content \<and> \<not> truthy_opt content
             \<longrightarrow> degraded r)
       \<and> (\<forall>response s.
             out = Ok (Inr response) \<and> first_content response = Inr (Some (JStr s))
             \<and> (case match_braces s of None \<Rightarrow> True | Some m \<Rightarrow> JSON_parse P m = None)
             \<longrightarrow> degraded r)
       \<and> (succeeded r \<or> degraded r)"
proof -
  have thrown: "degraded r" if "fst (findBrandWebsite_try P f brandName out now) = Inl e" for e
    using that assms degraded_error_record [of brandName "modelKey f" now e]
    by (auto simp: findBrandWebsite_def split: prod.splits sum.splits)
  have rejects: "\<exists>e'. fst (findBrandWebsite_try P f brandName out now) = Inl e'"
    if "out = FetchRejects e" for e
    using that by (simp add: findBrandWebsite_try_def makeOpenRouterRequest_def)
  have notok: "\<exists>e'. fst (findBrandWebsite_try P f brandName out now) = Inl e'"
    if "out = NotOk status body" for status body
    using that by (cases body) (simp_all add: findBrandWebsite_try_def makeOpenRouterRequest_def)
  have body: "\<exists>e'. fst (findBrandWebsite_try P f brandName out now) = Inl e'"
    if "out = Ok (Inl e)" for e
    using that by (simp add: findBrandWebsite_try_def makeOpenRouterRequest_def)
  have empty: "\<exists>e'. fst (findBrandWebsite_try P f brandName out now) = Inl e'"
    if "out = Ok (Inr response)" "first_content response = Inr content" "\<not> truthy_opt content"
    for response content
    using that
    by (auto simp: findBrandWebsite_try_def makeOpenRouterRequest_def Let_def
             split: option.splits)
  have unparseable: "degraded r"
    if "out = Ok (Inr response)" "first_content response = Inr (Some (JStr s))"
       "case match_braces s of None \<Rightarrow> True | Some m \<Rightarrow> JSON_parse P m = None"
    for response s
  proof (cases "truthy_opt (Some (JStr s))")
    case False
    with that(1,2) empty thrown show ?thesis by blast
  next
    case True
    have "response \<noteq> JNull" using that(2) by (auto simp: first_content_def)
    with that True
    have "\<exists>used. fst (findBrandWebsite_try P f brandName out now)
             = Inr (fallback_record brandName (modelKey f) now s used)"
      by (auto simp: findBrandWebsite_try_def makeOpenRouterRequest_def Let_def
               split: option.splits)
    then obtain used where "fst (findBrandWebsite_try P f brandName out now)
             = Inr (fallback_record brandName (modelKey f) now s used)" ..
    with assms have "r = fallback_record brandName (modelKey f) now s used"
      by (auto simp: findBrandWebsite_def split: prod.splits sum.splits)
    then show ?thesis by (simp add: degraded_fallback_record)
  qed
  have either: "succeeded r \<or> degraded r"
    using find_succeeded_or_degraded [of P f brandName out now] assms by simp
  from thrown rejects notok body empty unparseable either show ?thesis
    by (intro conjI allI impI) blast+
qed

theorem query_client_degrades_witness:
  "degraded (fst (findBrandWebsite (table_runtime []) mini_finder ''Acme Blades''
      (FetchRejects (Error ''The operation was aborted due to timeout''))
      ''2024-01-15T10:35:22.456Z''))"
proof -
  obtain r f' where run:
    "findBrandWebsite (table_runtime []) mini_finder ''Acme Blades''
      (FetchRejects (Error ''The operation was aborted due to timeout''))
      ''2024-01-15T10:35:22.456Z'' = (r, f')"
    by (cases "findBrandWebsite (table_runtime []) mini_finder ''Acme Blades''
      (FetchRejects (Error ''The operation was aborted due to timeout''))
      ''2024-01-15T10:35:22.456Z''")
  from query_client_degrades [OF run] have "degraded r" by blast
  with run show ?thesis by simp
qed

lemma request_ok:
  "response \<noteq> JNull \<Longrightarrow> fst (makeOpenRouterRequest f (Ok (Inr response))) = Inr response"
  by (simp add: makeOpenRouterRequest_def Let_def split: option.splits)

lemma parse_success_run:
  assumes "out = Ok (Inr response)"
    and "first_content response = Inr (Some (JStr s))"
    and "s \<noteq> []"
    and "match_braces s = Some m"
    and "JSON_parse P m = Some (JObj brandData)"
  shows "fst (findBrandWebsite P f brandName out now)
         = success_record brandData (modelKey f) now s
             (tokensUsed (tokenUsage f) (tokenUsage (snd (makeOpenRouterRequest f out))))"
proof -
  have "response \<noteq> JNull" using assms(2) by (auto simp: first_content_def)
  then obtain f1 where req: "makeOpenRouterRequest f out = (Inr response, f1)"
    using assms(1) request_ok [of response f] by (cases "makeOpenRouterRequest f out") simp
  show ?thesis
    using assms req
    by (simp add: findBrandWebsite_def findBrandWebsite_try_def Let_def truthy_opt_def)
qed

lemma parse_failure_run:
  assumes "out = Ok (Inr response)"
    and "first_content response = Inr (Some (JStr s))"
    and "s \<noteq> []"
    and "match_braces s = None \<or> (\<exists>m. match_braces s = Some m \<and> JSON_parse P m = None)"
  shows "fst (findBrandWebsite P f brandName out now)
         = fallback_record brandName (modelKey f) now s
             (tokensUsed (tokenUsage f) (tokenUsage (snd (makeOpenRouterRequest f out))))"
proof -
  have "response \<noteq> JNull" using assms(2) by (auto simp: first_content_def)
  then obtain f1 where req: "makeOpenRouterRequest f out = (Inr response, f1)"
    using assms(1) request_ok [of response f] by (cases "makeOpenRouterRequest f out") simp
  show ?thesis
    using assms req
    by (auto simp: findBrandWebsite_def findBrandWebsite_try_def Let_def truthy_opt_def)
qed

lemma success_record_other:
  "k \<notin> set controlled_fields \<Longrightarrow> property (success_record bd mk now s used) k = map_of bd k"
  by (simp add: success_record_def controlled_fields_def update_conv')



lemma match_braces_Some:
  assumes "match_braces s = Some m"
  shows "\<exists>pre post. s = pre @ m @ post \<and> CHR ''{'' \<notin> set pre \<and> CHR ''}'' \<notin> set post
           \<and> hd m = CHR ''{'' \<and> last m = CHR ''}'' \<and> 2 \<le> length m"
proof -
  let ?p = "\<lambda>c. c \<noteq> CHR ''{''" and ?q = "\<lambda>c. c \<noteq> CHR ''}''"
  from assms obtain b rest where dw: "dropWhile ?p s = b # rest"
    and close: "CHR ''}'' \<in> set rest"
    and m: "m = b # rev (dropWhile ?q (rev rest))"
    by (auto simp: match_braces_def split: list.splits if_splits)
  have b: "b = CHR ''{''"
    using hd_dropWhile [of ?p s] dw by auto
  have s: "s = takeWhile ?p s @ b # rest"
    using takeWhile_dropWhile_id [of ?p s] dw by simp
  have rest: "rest = rev (dropWhile ?q (rev rest)) @ rev (takeWhile ?q (rev rest))"
    using takeWhile_dropWhile_id [of ?q "rev rest"] by (metis rev_append rev_rev_ident)
  have ne: "dropWhile ?q (rev rest) \<noteq> []"
    using close by (simp add: dropWhile_eq_Nil_conv)
  then have "hd (dropWhile ?q (rev rest)) = CHR ''}''"
    using hd_dropWhile [of ?q "rev rest"] by auto
  with ne have last: "last (rev (dropWhile ?q (rev rest))) = CHR ''}''"
    by (simp add: last_rev)
  have pre: "CHR ''{'' \<notin> set (takeWhile ?p s)"
    using set_takeWhileD by fastforce
  have post: "CHR ''}'' \<notin> set (rev (takeWhile ?q (rev rest)))"
    using set_takeWhileD by fastforce
  have "s = takeWhile ?p s @ m @ rev (takeWhile ?q (rev rest))"
    using s rest m by simp
  moreover have "hd m = CHR ''{''" using m b by simp
  moreover have "last m = CHR ''}''"
  proof -
    have nz: "rev (dropWhile ?q (rev rest)) \<noteq> []" using ne by simp
    have "last (b # rev (dropWhile ?q (rev rest))) = last (rev (dropWhile ?q (rev rest)))"
      using nz by (rule last_ConsR)
    then show ?thesis unfolding m using last by (simp only:)
  qed
  moreover have "2 \<le> length m" using m ne by (cases "dropWhile ?q (rev rest)") simp_all
  ultimately show ?thesis using pre post by blast
qed

lemma match_braces_None:
  "match_braces s = None \<longleftrightarrow> \<not> (\<exists>pre mid post. s = pre @ ''{'' @ mid @ ''}'' @ post)"
proof
  assume none: "match_braces s = None"
  show "\<not> (\<exists>pre mid post. s = pre @ ''{'' @ mid @ ''}'' @ post)"
  proof
    assume "\<exists>pre mid post. s = pre @ ''{'' @ mid @ ''}'' @ post"
    then obtain pre mid post where s: "s = pre @ ''{'' @ mid @ ''}'' @ post" by blast
    let ?p = "\<lambda>c. c \<noteq> CHR ''{''"
    have "CHR ''{'' \<in> set s" using s by simp
    then have "dropWhile ?p s \<noteq> []" by (simp add: dropWhile_eq_Nil_conv)
    then obtain b rest where dw: "dropWhile ?p s = b # rest" by (cases "dropWhile ?p s") auto
    have "\<exists>zs. dropWhile ?p (pre @ ''{'' @ mid @ ''}'' @ post) = zs @ ''}'' @ post \<and> zs \<noteq> []"
    proof (induction pre)
      case Nil
      show ?case by simp
    next
      case (Cons a pre)
      then show ?case by (cases "a = CHR ''{''") auto
    qed
    then obtain zs where "b # rest = zs @ ''}'' @ post" "zs \<noteq> []" using dw s by auto
    then have "CHR ''}'' \<in> set rest" by (cases zs) auto
    with dw none show False by (simp add: match_braces_def)
  qed
next
  assume no: "\<not> (\<exists>pre mid post. s = pre @ ''{'' @ mid @ ''}'' @ post)"
  show "match_braces s = None"
  proof (rule ccontr)
    assume "match_braces s \<noteq> None"
    then obtain m where "match_braces s = Some m" by auto
    from match_braces_Some [OF this] obtain pre post where
      s: "s = pre @ m @ post" and h: "hd m = CHR ''{''" and l: "last m = CHR ''}''" and n: "2 \<le> length m"
      by blast
    from n obtain a m' where m: "m = a # m'" and "m' \<noteq> []"
      by (cases m) (simp, fastforce)
    then obtain mid z where m': "m' = mid @ [z]" by (metis rev_exhaust)
    from m m' h l have "m = ''{'' @ mid @ ''}''" by simp
    with s no show False by (metis append.assoc)
  qed
qed

text \<open>
  Claim C6 as stated fails: the content holds the object, then prose with a second
  pair of braces. The first top-level brace-delimited object is the object's text, and
  it parses; the program cuts from the first \<^verbatim>\<open>{\<close> to the last \<^verbatim>\<open>}\<close>, which does not
  parse, and returns the fallback record.
\<close>

theorem first_object_not_extracted:
  "spec_first_object acme_answer = Some acme_text
   \<and> JSON_parse acme_runtime acme_text = Some acme_object
   \<and> property (fst (findBrandWebsite acme_runtime mini_finder ''Acme Blades''
         (Ok (Inr (chat_response acme_answer))) now0)) ''success'' = Some (JBool False)
   \<and> property (fst (findBrandWebsite acme_runtime mini_finder ''Acme Blades''
         (Ok (Inr (chat_response acme_answer))) now0)) ''error_type'' = Some (JStr ''parse_error'')"
  by code_simp

text \<open>
  Claim C6, as the code has it. For a non-empty content string the program takes the
  span from the first \<^verbatim>\<open>{\<close> to the last \<^verbatim>\<open>}\<close> of the content (there is none exactly when
  no \<^verbatim>\<open>}\<close> follows a \<^verbatim>\<open>{\<close>). If the span parses to an object, the record is that
  object with \<^verbatim>\<open>success\<close> true. If there is no span or it does not parse, the record
  has \<^verbatim>\<open>success\<close> false, \<^verbatim>\<open>error_type\<close> parse_error, \<^verbatim>\<open>search_confidence\<close> low,
  \<^verbatim>\<open>website_url\<close> null and as \<^verbatim>\<open>description\<close> the first 200 characters of the content
  followed by three dots; its \<^verbatim>\<open>token_usage\<close>, \<^verbatim>\<open>timestamp\<close> and \<^verbatim>\<open>raw_response\<close> are
  those of the success path.
\<close>

theorem extraction_first_to_last_brace:
  assumes "findBrandWebsite P f brandName out now = (r, f')"
    and "out = Ok (Inr response)"
    and "first_content response = Inr (Some (JStr s))"
    and "s \<noteq> []"
  shows "(\<forall>m. match_braces s = Some m \<longrightarrow>
            (\<exists>pre post. s = pre @ m @ post \<and> CHR ''{'' \<notin> set pre \<and> CHR ''}'' \<notin> set post
                \<and> hd m = CHR ''{'' \<and> last m = CHR ''}''))
       \<and> (match_braces s = None \<longleftrightarrow> \<not> (\<exists>pre mid post. s = pre @ ''{'' @ mid @ ''}'' @ post))
       \<and> (\<forall>m brandData. match_braces s = Some m \<and> JSON_parse P m = Some (JObj brandData) \<longrightarrow>
            property r ''success'' = Some (JBool True)
            \<and> (\<forall>k. k \<notin> set controlled_fields \<longrightarrow> property r k = map_of brandData k)
            \<and> property r ''token_usage''
                = Some (JObj (tokensUsed (tokenUsage f) (tokenUsage (snd (makeOpenRouterRequest f out)))))
            \<and> property r ''timestamp'' = Some (JStr now)
            \<and> property r ''raw_response'' = Some (JStr s))
       \<and> (match_braces s = None \<or> (\<exists>m. match_braces s = Some m \<and> JSON_parse P m = None) \<longrightarrow>
            property r ''success'' = Some (JBool False)
            \<and> property r ''error_type'' = Some (JStr ''parse_error'')
            \<and> property r ''search_confidence'' = Some (JStr ''low'')
            \<and> property r ''website_url'' = Some JNull
            \<and> property r ''description'' = Some (JStr (take 200 s @ ''...''))
            \<and> property r ''token_usage''
                = Some (JObj (tokensUsed (tokenUsage f) (tokenUsage (snd (makeOpenRouterRequest f out)))))
            \<and> property r ''timestamp'' = Some (JStr now)
            \<and> property r ''raw_response'' = Some (JStr s))"
proof -
  let ?used = "tokensUsed (tokenUsage f) (tokenUsage (snd (makeOpenRouterRequest f out)))"
  have span: "\<exists>pre post. s = pre @ m @ post \<and> CHR ''{'' \<notin> set pre \<and> CHR ''}'' \<notin> set post
                \<and> hd m = CHR ''{'' \<and> last m = CHR ''}''"
    if "match_braces s = Some m" for m
    using match_braces_Some [OF that] by blast
  have parsed: "property r ''success'' = Some (JBool True)
            \<and> (\<forall>k. k \<notin> set controlled_fields \<longrightarrow> property r k = map_of brandData k)
            \<and> property r ''token_usage'' = Some (JObj ?used)
            \<and> property r ''timestamp'' = Some (JStr now)
            \<and> property r ''raw_response'' = Some (JStr s)"
    if "match_braces s = Some m" "JSON_parse P m = Some (JObj brandData)" for m brandData
  proof -
    have "r = success_record brandData (modelKey f) now s ?used"
      using parse_success_run [OF assms(2-4) that, of f brandName now] assms(1) by simp
    then show ?thesis
      using success_record_other by (simp add: success_record_def update_conv')
  qed
  have fallback: "property r ''success'' = Some (JBool False)
            \<and> property r ''error_type'' = Some (JStr ''parse_error'')
            \<and> property r ''search_confidence'' = Some (JStr ''low'')
            \<and> property r ''website_url'' = Some JNull
            \<and> property r ''description'' = Some (JStr (take 200 s @ ''...''))
            \<and> property r ''token_usage'' = Some (JObj ?used)
            \<and> property r ''timestamp'' = Some (JStr now)
            \<and> property r ''raw_response'' = Some (JStr s)"
    if "match_braces s = None \<or> (\<exists>m. match_braces s = Some m \<and> JSON_parse P m = None)"
  proof -
    have "r = fallback_record brandName (modelKey f) now s ?used"
      using parse_failure_run [OF assms(2-4) that, of f brandName now] assms(1) by simp
    then show ?thesis by (simp add: fallback_record_def)
  qed
  from span match_braces_None [of s] parsed fallback show ?thesis
    by (intro conjI allI impI) blast+
qed

theorem extraction_first_to_last_brace_witness:
  "property (fst (findBrandWebsite acme_runtime mini_finder ''Acme Blades''
       (Ok (Inr (chat_response acme_text))) now0)) ''success'' = Some (JBool True)
   \<and> property (fst (findBrandWebsite acme_runtime mini_finder ''Acme Blades''
       (Ok (Inr (chat_response acme_text))) now0)) ''website_url''
       = Some (JStr ''https://acmeblades.com'')
   \<and> property (fst (findBrandWebsite acme_runtime mini_finder ''Acme Blades''
       (Ok (Inr (chat_response acme_answer))) now0)) ''description''
       = Some (JStr (take 200 acme_answer @ ''...''))"
proof -
  let ?ok = "Ok (Inr (chat_response acme_text))" and ?bad = "Ok (Inr (chat_response acme_answer))"
  obtain r f' where run: "findBrandWebsite acme_runtime mini_finder ''Acme Blades'' ?ok now0 = (r, f')"
    by (cases "findBrandWebsite acme_runtime mini_finder ''Acme Blades'' ?ok now0")
  obtain r2 f2 where run2: "findBrandWebsite acme_runtime mini_finder ''Acme Blades'' ?bad now0 = (r2, f2)"
    by (cases "findBrandWebsite acme_runtime mini_finder ''Acme Blades'' ?bad now0")
  have c: "first_content (chat_response acme_text) = Inr (Some (JStr acme_text))"
    "first_content (chat_response acme_answer) = Inr (Some (JStr acme_answer))"
    by (simp_all add: first_content_def chat_response_def)
  have ne: "acme_text \<noteq> []" "acme_answer \<noteq> []" by (simp_all add: acme_text_def acme_answer_def)
  have m: "match_braces acme_text = Some acme_text" by code_simp
  have p: "JSON_parse acme_runtime acme_text
             = Some (JObj [(''brand_name'', JStr ''Acme Blades''),
                           (''website_url'', JStr ''https://acmeblades.com'')])"
    by (simp add: acme_runtime_def table_runtime_def acme_object_def)
  have m2: "match_braces acme_answer = Some (acme_text @ '' (source: {web search}'')" by code_simp
  have p2: "JSON_parse acme_runtime (acme_text @ '' (source: {web search}'') = None" by code_simp
  have k: "''website_url'' \<notin> set controlled_fields" by (simp add: controlled_fields_def)
  from extraction_first_to_last_brace [OF run refl c(1) ne(1)] m p k
  have "property r ''success'' = Some (JBool True)
        \<and> property r ''website_url'' = Some (JStr ''https://acmeblades.com'')"
    by simp
  moreover from extraction_first_to_last_brace [OF run2 refl c(2) ne(2)] m2 p2
  have "property r2 ''description'' = Some (JStr (take 200 acme_answer @ ''...''))"
    by simp
  ultimately show ?thesis using run run2 by simp
qed


section \<open>Properties of the Batch Runner\<close>

lemma uninterrupted_iff: "uninterrupted env n \<longleftrightarrow> (\<forall>i<n. settles (env i))"
  by (auto simp: uninterrupted_def list_all_iff)

lemma settles_request: "settles it \<Longrightarrow> \<exists>out now. request it = Settles (out, now)"
  by (cases "request it") (auto simp: settles_def)

lemma settles_delay: "settles it \<Longrightarrow> \<exists>u. delay it = Settles u"
  by (cases "delay it") (auto simp: settles_def)

lemma length_query_all:
  "\<forall>j<length todo. settles (env (i + j)) \<Longrightarrow> length (fst (query_all P env i f todo)) = length todo"
proof (induction todo arbitrary: i f)
  case Nil
  show ?case by simp
next
  case (Cons brand todo)
  from Cons.prems have "settles (env (i + 0))" by (metis length_greater_0_conv list.discI)
  then obtain out now where req: "request (env i) = Settles (out, now)"
    using settles_request by fastforce
  have rest: "\<forall>j<length todo. settles (env (Suc i + j))"
    using Cons.prems by (metis Suc_less_eq add_Suc_shift length_Cons) 
  obtain r f' where q: "findBrandWebsite P f brand out now = (r, f')"
    by (cases "findBrandWebsite P f brand out now")
  show ?case
    using Cons.IH [OF rest, of f'] req q
    by (cases "query_all P env (Suc i) f' todo") simp
qed


lemma loop_signal_request:
  assumes "\<not> isShuttingDown g"
    and "k < length todo"
    and "\<forall>j<k. settles (env (i + j))"
    and "request (env (i + k)) = Signal se"
    and "currentResults g = results"
  shows "brands_loop P env i todo results f g d
         = (case gracefulShutdown P se
                   (g\<lparr>currentResults := results @ fst (query_all P env i f (take k todo))\<rparr>)
                   (snd (query_all P env i f (take k todo))) d of
              (g', d', code) \<Rightarrow> (Exit code, snd (query_all P env i f (take k todo)), g', d'))"
  using assms
proof (induction k arbitrary: i todo results f g)
  case 0
  then obtain brand rest where todo: "todo = brand # rest" by (cases todo) auto
  have same: "g\<lparr>currentResults := results\<rparr> = g" using "0.prems"(5) by simp
  show ?case
    using "0.prems"(1,4) todo by (simp add: same)
next
  case (Suc k)
  then obtain brand rest where todo: "todo = brand # rest" by (cases todo) auto
  with Suc.prems(2) have k: "k < length rest" by simp
  then have ne: "rest \<noteq> []" by auto
  from Suc.prems(3) have s0: "settles (env i)" by (metis add.right_neutral zero_less_Suc)
  then obtain out now where req: "request (env i) = Settles (out, now)"
    using settles_request by fastforce
  from s0 obtain u where del: "delay (env i) = Settles u"
    using settles_delay by fastforce
  have rest: "\<forall>j<k. settles (env (Suc i + j))"
    using Suc.prems(3) by (metis Suc_less_eq add_Suc_shift)
  have sig: "request (env (Suc i + k)) = Signal se" using Suc.prems(4) by simp
  obtain r f' where q: "findBrandWebsite P f brand out now = (r, f')"
    by (cases "findBrandWebsite P f brand out now")
  let ?g = "g\<lparr>currentResults := results @ [r]\<rparr>"
  have flag: "\<not> isShuttingDown ?g" using Suc.prems(1) by simp
  have cur: "currentResults ?g = results @ [r]" by simp
  have step: "brands_loop P env i todo results f g d
              = brands_loop P env (Suc i) rest (results @ [r]) f' ?g d"
    using Suc.prems(1) req del q todo ne by (simp add: Let_def)
  show ?case
    unfolding step Suc.IH [OF flag k rest sig cur]
    using req q todo by (cases "query_all P env (Suc i) f' (take k rest)") simp
qed

lemma slice_take_drop:
  assumes "0 \<le> S" and "S < int (length xs)" and "0 \<le> C"
  shows "slice xs S (S + C) = take (nat C) (drop (nat S) xs)"
proof (cases "S + C \<le> int (length xs)")
  case True
  with assms show ?thesis by (simp add: slice_def Let_def min_def)
next
  case False
  then have all: "length (drop (nat S) xs) \<le> nat C" using assms by simp
  have "slice xs S (S + C) = take (nat (int (length xs) - S)) (drop (nat S) xs)"
    using False assms by (simp add: slice_def Let_def min_def)
  also have "\<dots> = drop (nat S) xs" using assms by simp
  also have "\<dots> = take (nat C) (drop (nat S) xs)" using all by simp
  finally show ?thesis .
qed





lemma record_is_object: "\<exists>ms. fst (findBrandWebsite P f b out now) = JObj ms"
  by (rule find_cases)
     (simp_all add: error_record_def fallback_record_def success_record_def Let_def)









section \<open>Properties of the interruption\<close>

lemma js_filter_success_is:
  "JNull \<notin> set rs \<Longrightarrow>
   js_filter (success_is b) rs = Some (filter (\<lambda>r. property r ''success'' = Some (JBool b)) rs)"
  by (induction rs) (auto simp: success_is_def)

lemma partial_output_results:
  assumes "JNull \<notin> set rs"
  shows "\<exists>out. partial_output P f rs t = Some out \<and> property out ''results'' = Some (JArr rs)"
  using assms by (simp add: partial_output_def js_filter_success_is Let_def)

lemma query_all_objects: "JNull \<notin> set (fst (query_all P env i f todo))"
proof (induction todo arbitrary: i f)
  case Nil
  show ?case by simp
next
  case (Cons brand todo)
  show ?case
  proof (cases "request (env i)")
    case (Signal se)
    then show ?thesis by simp
  next
    case (Settles x)
    obtain out now where x: "x = (out, now)" by (cases x)
    obtain r f' where q: "findBrandWebsite P f brand out now = (r, f')"
      by (cases "findBrandWebsite P f brand out now")
    obtain rs f'' where qa: "query_all P env (Suc i) f' todo = (rs, f'')"
      by (cases "query_all P env (Suc i) f' todo")
    have "r \<noteq> JNull" using record_is_object [of P f brand out now] q by auto
    moreover have "JNull \<notin> set rs" using Cons.IH [of "Suc i" f'] qa by simp
    ultimately show ?thesis using Settles x q qa by simp
  qed
qed

lemma gracefulShutdown_running:
  assumes "\<not> isShuttingDown g" and "currentFinder g" and "JNull \<notin> set (currentResults g)"
  shows "\<exists>d'. gracefulShutdown P se g f d = (g\<lparr>isShuttingDown := True\<rparr>, d', 0)
           \<and> (currentResults g = [] \<or> write_error se \<noteq> None \<longrightarrow> d' = d)
           \<and> (currentResults g \<noteq> [] \<and> write_error se = None \<longrightarrow>
                (\<exists>out. partial_output P f (currentResults g) (metadata_time se) = Some out
                   \<and> property out ''results'' = Some (JArr (currentResults g))
                   \<and> d' = d @ [(partial_path f se, out)]))"
proof -
  from partial_output_results [OF assms(3), of P f "metadata_time se"]
  obtain out where out: "partial_output P f (currentResults g) (metadata_time se) = Some out"
    "property out ''results'' = Some (JArr (currentResults g))"
    by blast
  show ?thesis
    using assms(1,2) out
    by (cases "write_error se") (auto simp: gracefulShutdown_def Let_def)
qed

lemma loop_signal_delay:
  assumes "\<not> isShuttingDown g"
    and "Suc k < length todo"
    and "\<forall>j<k. settles (env (i + j))"
    and "request (env (i + k)) = Settles x"
    and "delay (env (i + k)) = Signal se"
    and "currentResults g = results"
  shows "brands_loop P env i todo results f g d
         = (case gracefulShutdown P se
                   (g\<lparr>currentResults := results @ fst (query_all P env i f (take (Suc k) todo))\<rparr>)
                   (snd (query_all P env i f (take (Suc k) todo))) d of
              (g', d', code) \<Rightarrow> (Exit code, snd (query_all P env i f (take (Suc k) todo)), g', d'))"
  using assms
proof (induction k arbitrary: i todo results f g)
  case 0
  then obtain brand rest where todo: "todo = brand # rest" by (cases todo) auto
  with "0.prems"(2) have ne: "rest \<noteq> []" by auto
  obtain out now where x: "x = (out, now)" by (cases x)
  obtain r f' where q: "findBrandWebsite P f brand out now = (r, f')"
    by (cases "findBrandWebsite P f brand out now")
  show ?case
    using "0.prems"(1,4,5,6) todo ne x q by (simp add: Let_def)
next
  case (Suc k)
  then obtain brand rest where todo: "todo = brand # rest" by (cases todo) auto
  with Suc.prems(2) have k: "Suc k < length rest" by simp
  then have ne: "rest \<noteq> []" by auto
  from Suc.prems(3) have s0: "settles (env i)" by (metis add.right_neutral zero_less_Suc)
  then obtain out now where req: "request (env i) = Settles (out, now)"
    using settles_request by fastforce
  from s0 obtain u where del: "delay (env i) = Settles u"
    using settles_delay by fastforce
  have rest: "\<forall>j<k. settles (env (Suc i + j))"
    using Suc.prems(3) by (metis Suc_less_eq add_Suc_shift)
  have sig: "request (env (Suc i + k)) = Settles x" "delay (env (Suc i + k)) = Signal se"
    using Suc.prems(4,5) by simp_all
  obtain r f' where q: "findBrandWebsite P f brand out now = (r, f')"
    by (cases "findBrandWebsite P f brand out now")
  let ?g = "g\<lparr>currentResults := results @ [r]\<rparr>"
  have flag: "\<not> isShuttingDown ?g" using Suc.prems(1) by simp
  have cur: "currentResults ?g = results @ [r]" by simp
  have step: "brands_loop P env i todo results f g d
              = brands_loop P env (Suc i) rest (results @ [r]) f' ?g d"
    using Suc.prems(1) req del q todo ne by (simp add: Let_def)
  show ?case
    unfolding step Suc.IH [OF flag k rest sig cur]
    using req q todo by (cases "query_all P env (Suc i) f' (take (Suc k) rest)") simp
qed

lemma loop_returns_all:
  "\<not> isShuttingDown g \<Longrightarrow> fst (brands_loop P env i todo results f g d) = Returns rs
   \<Longrightarrow> length rs = length results + length todo"
proof (induction todo arbitrary: i results f g)
  case Nil
  then show ?case by simp
next
  case (Cons brand todo)
  show ?case
  proof (cases "request (env i)")
    case (Signal se)
    with Cons.prems show ?thesis by (simp split: prod.splits)
  next
    case (Settles x)
    obtain out now where x: "x = (out, now)" by (cases x)
    obtain r f' where q: "findBrandWebsite P f brand out now = (r, f')"
      by (cases "findBrandWebsite P f brand out now")
    let ?g = "g\<lparr>currentResults := results @ [r]\<rparr>"
    have flag: "\<not> isShuttingDown ?g" using Cons.prems(1) by simp
    show ?thesis
    proof (cases "todo \<noteq> [] \<and> (\<exists>se. delay (env i) = Signal se)")
      case True
      with Cons.prems Settles x q show ?thesis by (auto simp: Let_def split: prod.splits)
    next
      case False
      then have "brands_loop P env i (brand # todo) results f g d
                 = brands_loop P env (Suc i) todo (results @ [r]) f' ?g d"
        using Cons.prems(1) Settles x q
        by (cases "delay (env i)") (auto simp: Let_def)
      with Cons.prems(2) Cons.IH [OF flag, of "Suc i" "results @ [r]" f'] show ?thesis by simp
    qed
  qed
qed

lemma processBrands_signal_request:
  assumes "\<not> isShuttingDown g" and "0 \<le> S" and "S < int (length brands)" and "0 \<le> C"
    and "uninterrupted env k"
    and "k < length (take (nat C) (drop (nat S) brands))"
    and "request (env k) = Signal se"
  shows "\<exists>rs fk g' d'.
           processBrands P env f brands S C g d = (Exit 0, fk, g', d')
           \<and> query_all P env 0 f (take k (take (nat C) (drop (nat S) brands))) = (rs, fk)
           \<and> length rs = k \<and> isShuttingDown g' \<and> currentResults g' = rs
           \<and> (k = 0 \<or> write_error se \<noteq> None \<longrightarrow> d' = d)
           \<and> (0 < k \<and> write_error se = None \<longrightarrow>
                (\<exists>out. partial_output P fk rs (metadata_time se) = Some out
                   \<and> property out ''results'' = Some (JArr rs)
                   \<and> d' = d @ [(partial_path fk se, out)]))"
proof -
  let ?todo = "take (nat C) (drop (nat S) brands)"
  let ?g = "g\<lparr>currentResults := [], currentFinder := True\<rparr>"
  obtain rs fk where qa: "query_all P env 0 f (take k ?todo) = (rs, fk)"
    by (cases "query_all P env 0 f (take k ?todo)")
  have td: "slice brands S (S + C) = ?todo" using assms(2-4) by (rule slice_take_drop)
  have quiet: "\<forall>j<k. settles (env (0 + j))" using assms(5) by (simp add: uninterrupted_iff)
  have "\<forall>j<length (take k ?todo). settles (env (0 + j))" using quiet by simp
  from length_query_all [OF this, of P f] qa assms(6) have len: "length rs = k" by simp
  have nn: "JNull \<notin> set rs" using query_all_objects [of P env 0 f "take k ?todo"] qa by simp
  let ?gk = "?g\<lparr>currentResults := [] @ fst (query_all P env 0 f (take k ?todo))\<rparr>"
  have loop: "brands_loop P env 0 ?todo [] f ?g d
        = (case gracefulShutdown P se ?gk (snd (query_all P env 0 f (take k ?todo))) d of
             (g', d', code) \<Rightarrow> (Exit code, snd (query_all P env 0 f (take k ?todo)), g', d'))"
    using assms(1,6,7) quiet by (intro loop_signal_request) simp_all
  have gk: "\<not> isShuttingDown ?gk" "currentFinder ?gk" "JNull \<notin> set (currentResults ?gk)"
    "currentResults ?gk = rs"
    using assms(1) qa nn by simp_all
  from gracefulShutdown_running [OF gk(1-3), of P se fk d]
  obtain d' where gs: "gracefulShutdown P se ?gk fk d = (?gk\<lparr>isShuttingDown := True\<rparr>, d', 0)"
    and nosave: "currentResults ?gk = [] \<or> write_error se \<noteq> None \<longrightarrow> d' = d"
    and save: "currentResults ?gk \<noteq> [] \<and> write_error se = None \<longrightarrow>
                (\<exists>out. partial_output P fk (currentResults ?gk) (metadata_time se) = Some out
                   \<and> property out ''results'' = Some (JArr (currentResults ?gk))
                   \<and> d' = d @ [(partial_path fk se, out)])"
    by blast
  have run: "processBrands P env f brands S C g d = (Exit 0, fk, ?gk\<lparr>isShuttingDown := True\<rparr>, d')"
    using loop gs qa td by (simp add: processBrands_def Let_def)
  have a: "k = 0 \<or> write_error se \<noteq> None \<longrightarrow> d' = d"
    using nosave gk(4) len by auto
  have b: "0 < k \<and> write_error se = None \<longrightarrow>
                (\<exists>out. partial_output P fk rs (metadata_time se) = Some out
                   \<and> property out ''results'' = Some (JArr rs)
                   \<and> d' = d @ [(partial_path fk se, out)])"
    using save gk(4) len by auto
  from run qa len gk(4) a b show ?thesis by simp
qed

lemma length_query_all_requests:
  "\<forall>j<length todo. \<exists>x. request (env (i + j)) = Settles x \<Longrightarrow>
   length (fst (query_all P env i f todo)) = length todo"
proof (induction todo arbitrary: i f)
  case Nil
  show ?case by simp
next
  case (Cons brand todo)
  from Cons.prems have "\<exists>x. request (env (i + 0)) = Settles x"
    by (metis length_greater_0_conv list.discI)
  then obtain out now where req: "request (env i) = Settles (out, now)" by fastforce
  have rest: "\<forall>j<length todo. \<exists>x. request (env (Suc i + j)) = Settles x"
    using Cons.prems by (metis Suc_less_eq add_Suc_shift length_Cons)
  obtain r f' where q: "findBrandWebsite P f brand out now = (r, f')"
    by (cases "findBrandWebsite P f brand out now")
  show ?case
    using Cons.IH [OF rest, of f'] req q
    by (cases "query_all P env (Suc i) f' todo") simp
qed

lemma processBrands_signal_delay:
  assumes "\<not> isShuttingDown g" and "0 \<le> S" and "S < int (length brands)" and "0 \<le> C"
    and "uninterrupted env k"
    and "Suc k < length (take (nat C) (drop (nat S) brands))"
    and "request (env k) = Settles x"
    and "delay (env k) = Signal se"
  shows "\<exists>rs fk g' d'.
           processBrands P env f brands S C g d = (Exit 0, fk, g', d')
           \<and> query_all P env 0 f (take (Suc k) (take (nat C) (drop (nat S) brands))) = (rs, fk)
           \<and> length rs = Suc k \<and> isShuttingDown g' \<and> currentResults g' = rs
           \<and> (write_error se \<noteq> None \<longrightarrow> d' = d)
           \<and> (write_error se = None \<longrightarrow>
                (\<exists>out. partial_output P fk rs (metadata_time se) = Some out
                   \<and> property out ''results'' = Some (JArr rs)
                   \<and> d' = d @ [(partial_path fk se, out)]))"
proof -
  let ?todo = "take (nat C) (drop (nat S) brands)"
  let ?g = "g\<lparr>currentResults := [], currentFinder := True\<rparr>"
  obtain rs fk where qa: "query_all P env 0 f (take (Suc k) ?todo) = (rs, fk)"
    by (cases "query_all P env 0 f (take (Suc k) ?todo)")
  have td: "slice brands S (S + C) = ?todo" using assms(2-4) by (rule slice_take_drop)
  have quiet: "\<forall>j<k. settles (env (0 + j))" using assms(5) by (simp add: uninterrupted_iff)
  have "\<exists>y. request (env (0 + j)) = Settles y" if "j < length (take (Suc k) ?todo)" for j
  proof (cases "j = k")
    case True
    with assms(7) show ?thesis by simp
  next
    case False
    with that have "j < k" by simp
    with quiet have "settles (env j)" by simp
    then show ?thesis using settles_request by fastforce
  qed
  then have "\<forall>j<length (take (Suc k) ?todo). \<exists>y. request (env (0 + j)) = Settles y" by blast
  from length_query_all_requests [OF this, of P f] qa assms(6) have len: "length rs = Suc k"
    by simp
  have nn: "JNull \<notin> set rs" using query_all_objects [of P env 0 f "take (Suc k) ?todo"] qa by simp
  let ?gk = "?g\<lparr>currentResults := [] @ fst (query_all P env 0 f (take (Suc k) ?todo))\<rparr>"
  have loop: "brands_loop P env 0 ?todo [] f ?g d
        = (case gracefulShutdown P se ?gk (snd (query_all P env 0 f (take (Suc k) ?todo))) d of
             (g', d', code) \<Rightarrow> (Exit code, snd (query_all P env 0 f (take (Suc k) ?todo)), g', d'))"
    using assms(1,6,7,8) quiet by (intro loop_signal_delay) simp_all
  have gk: "\<not> isShuttingDown ?gk" "currentFinder ?gk" "JNull \<notin> set (currentResults ?gk)"
    "currentResults ?gk = rs"
    using assms(1) qa nn by simp_all
  from gracefulShutdown_running [OF gk(1-3), of P se fk d]
  obtain d' where gs: "gracefulShutdown P se ?gk fk d = (?gk\<lparr>isShuttingDown := True\<rparr>, d', 0)"
    and nosave: "currentResults ?gk = [] \<or> write_error se \<noteq> None \<longrightarrow> d' = d"
    and save: "currentResults ?gk \<noteq> [] \<and> write_error se = None \<longrightarrow>
                (\<exists>out. partial_output P fk (currentResults ?gk) (metadata_time se) = Some out
                   \<and> property out ''results'' = Some (JArr (currentResults ?gk))
                   \<and> d' = d @ [(partial_path fk se, out)])"
    by blast
  have run: "processBrands P env f brands S C g d = (Exit 0, fk, ?gk\<lparr>isShuttingDown := True\<rparr>, d')"
    using loop gs qa td by (simp add: processBrands_def Let_def)
  have a: "write_error se \<noteq> None \<longrightarrow> d' = d"
    using nosave by auto
  have ne: "rs \<noteq> []" using len by auto
  have b: "write_error se = None \<longrightarrow>
                (\<exists>out. partial_output P fk rs (metadata_time se) = Some out
                   \<and> property out ''results'' = Some (JArr rs)
                   \<and> d' = d @ [(partial_path fk se, out)])"
    using save gk(4) ne by auto
  from run qa len gk(4) a b show ?thesis by simp
qed

text \<open>
  Claim C8 as stated fails: two brands are to be processed, the first request is
  answered, and a signal arrives while the second request is in flight. The process
  exits with code 0 from the handler, and the file it leaves holds the record of the
  first brand only: the request in flight is abandoned, not completed.
\<close>

theorem in_flight_request_abandoned:
  "fst (processBrands acme_runtime (signal_at 1 sig0 (quiet acme_ok)) mini_finder two_brands 0 2
          idle []) = Exit 0
   \<and> persisted_brand_names
        (disk_of (processBrands acme_runtime (signal_at 1 sig0 (quiet acme_ok)) mini_finder
                    two_brands 0 2 idle []))
      = [[Some (JStr ''Acme Blades'')]]"
  by code_simp

text \<open>
  Claim C8, as the code has it. The loop reads the flag at the head of an iteration and
  before the delay, but the handler ends the process itself. In a run that starts with
  the flag clear and has no signal before iteration k: a signal during the request of
  iteration k ends the run with exit code 0 and persists exactly the k records completed
  before it, nothing when k = 0, so the record of the request in flight is not
  persisted; a signal during the delay after iteration k persists the k + 1 records
  completed; and a call that returns has never stopped early, it returns a record for
  every brand of the slice.
\<close>

theorem signal_ends_the_run:
  assumes "\<not> isShuttingDown g" and "0 \<le> S" and "S < int (length brands)" and "0 \<le> C"
    and "uninterrupted env k"
  shows "(k < length (take (nat C) (drop (nat S) brands)) \<and> request (env k) = Signal se \<longrightarrow>
           (\<exists>rs fk g' d'.
              processBrands P env f brands S C g d = (Exit 0, fk, g', d')
              \<and> query_all P env 0 f (take k (take (nat C) (drop (nat S) brands))) = (rs, fk)
              \<and> length rs = k \<and> isShuttingDown g' \<and> currentResults g' = rs
              \<and> (k = 0 \<or> write_error se \<noteq> None \<longrightarrow> d' = d)
              \<and> (0 < k \<and> write_error se = None \<longrightarrow>
                   (\<exists>out. partial_output P fk rs (metadata_time se) = Some out
                      \<and> property out ''results'' = Some (JArr rs)
                      \<and> d' = d @ [(partial_path fk se, out)]))))
       \<and> (Suc k < length (take (nat C) (drop (nat S) brands))
            \<and> (\<exists>x. request (env k) = Settles x) \<and> delay (env k) = Signal se \<longrightarrow>
           (\<exists>rs fk g' d'.
              processBrands P env f brands S C g d = (Exit 0, fk, g', d')
              \<and> query_all P env 0 f (take (Suc k) (take (nat C) (drop (nat S) brands))) = (rs, fk)
              \<and> length rs = Suc k \<and> isShuttingDown g' \<and> currentResults g' = rs
              \<and> (write_error se \<noteq> None \<longrightarrow> d' = d)
              \<and> (write_error se = None \<longrightarrow>
                   (\<exists>out. partial_output P fk rs (metadata_time se) = Some out
                      \<and> property out ''results'' = Some (JArr rs)
                      \<and> d' = d @ [(partial_path fk se, out)]))))
       \<and> (\<forall>rs. fst (processBrands P env f brands S C g d) = Returns rs
             \<longrightarrow> length rs = length (take (nat C) (drop (nat S) brands)))"
proof (intro conjI impI allI)
  assume "k < length (take (nat C) (drop (nat S) brands)) \<and> request (env k) = Signal se"
  then show "\<exists>rs fk g' d'.
              processBrands P env f brands S C g d = (Exit 0, fk, g', d')
              \<and> query_all P env 0 f (take k (take (nat C) (drop (nat S) brands))) = (rs, fk)
              \<and> length rs = k \<and> isShuttingDown g' \<and> currentResults g' = rs
              \<and> (k = 0 \<or> write_error se \<noteq> None \<longrightarrow> d' = d)
              \<and> (0 < k \<and> write_error se = None \<longrightarrow>
                   (\<exists>out. partial_output P fk rs (metadata_time se) = Some out
                      \<and> property out ''results'' = Some (JArr rs)
                      \<and> d' = d @ [(partial_path fk se, out)]))"
    using processBrands_signal_request [OF assms, of se P f d] by blast
next
  assume a: "Suc k < length (take (nat C) (drop (nat S) brands))
            \<and> (\<exists>x. request (env k) = Settles x) \<and> delay (env k) = Signal se"
  then obtain x where "request (env k) = Settles x" by blast
  with a show "\<exists>rs fk g' d'.
              processBrands P env f brands S C g d = (Exit 0, fk, g', d')
              \<and> query_all P env 0 f (take (Suc k) (take (nat C) (drop (nat S) brands))) = (rs, fk)
              \<and> length rs = Suc k \<and> isShuttingDown g' \<and> currentResults g' = rs
              \<and> (write_error se \<noteq> None \<longrightarrow> d' = d)
              \<and> (write_error se = None \<longrightarrow>
                   (\<exists>out. partial_output P fk rs (metadata_time se) = Some out
                      \<and> property out ''results'' = Some (JArr rs)
                      \<and> d' = d @ [(partial_path fk se, out)]))"
    using processBrands_signal_delay [OF assms, of x se P f d] by blast
next
  fix rs
  assume r: "fst (processBrands P env f brands S C g d) = Returns rs"
  have td: "slice brands S (S + C) = take (nat C) (drop (nat S) brands)"
    using assms(2-4) by (rule slice_take_drop)
  have "\<not> isShuttingDown (g\<lparr>currentResults := [], currentFinder := True\<rparr>)"
    using assms(1) by simp
  from loop_returns_all [OF this, of P env 0 "slice brands S (S + C)" "[]" f d rs] r td
  show "length rs = length (take (nat C) (drop (nat S) brands))"
    by (simp add: processBrands_def Let_def)
qed

theorem signal_ends_the_run_witness:
  "\<exists>fk g' d'. processBrands acme_runtime (signal_at 1 sig0 (quiet acme_ok)) mini_finder two_brands
                 0 2 idle [] = (Exit 0, fk, g', d')
      \<and> length (currentResults g') = 1 \<and> length d' = 1"
proof -
  have a: "\<not> isShuttingDown idle" by (simp add: idle_def)
  have b: "(0::int) < int (length two_brands)" by (simp add: two_brands_def)
  have c: "uninterrupted (signal_at 1 sig0 (quiet acme_ok)) 1"
    by (simp add: uninterrupted_def signal_at_def quiet_def settles_def)
  have k: "1 < length (take (nat 2) (drop (nat 0) two_brands))" by (simp add: two_brands_def)
  have s: "request (signal_at 1 sig0 (quiet acme_ok) 1) = Signal sig0" by (simp add: signal_at_def)
  have w: "write_error sig0 = None" by (simp add: sig0_def)
  from signal_ends_the_run [OF a _ b _ c, of 2 sig0 acme_runtime mini_finder "[]"] k s w
  show ?thesis by fastforce
qed

lemma str_includes_prefix: "str_includes (p @ b) p"
proof (cases "p @ b")
  case Nil
  then show ?thesis by simp
next
  case (Cons c cs)
  have "startsWith (p @ b) p" by (simp add: startsWith_def)
  then show ?thesis unfolding Cons by simp
qed

lemma str_includes_append: "str_includes (a @ p @ b) p"
proof (induction a)
  case Nil
  show ?case using str_includes_prefix [of p b] by simp
next
  case (Cons c a)
  then show ?case by simp
qed

lemma partial_path_marker: "str_includes (partial_path f se) ''_PARTIAL_''"
proof -
  have "partial_path f se
        = (drop 2 OUTPUT_DIR @ ''/'' @ ''brand_websites_'' @ safeModelKey (modelKey f))
          @ ''_PARTIAL_'' @ (dashed (filename_time se) @ ''.json'')"
    by (simp add: partial_path_def path_join_OUTPUT_DIR_def)
  then show ?thesis using str_includes_append by metis
qed

lemma partial_output_statistics:
  assumes "JNull \<notin> set rs"
  shows "\<exists>out meta normal nmeta.
           partial_output P f rs t = Some out
           \<and> property out ''results'' = Some (JArr rs)
           \<and> property out ''metadata'' = Some (JObj meta)
           \<and> map_of meta ''status'' = Some (JStr ''PARTIAL_RESULTS_DUE_TO_INTERRUPTION'')
           \<and> saveResults_output P f rs t = Some normal
           \<and> property normal ''results'' = Some (JArr rs)
           \<and> property normal ''metadata'' = Some (JObj nmeta)
           \<and> map_of nmeta ''status'' = None
           \<and> filter (\<lambda>(k, v). k \<noteq> ''status'') meta = nmeta"
  using assms
  by (simp add: partial_output_def saveResults_output_def js_filter_success_is Let_def)

lemma gracefulShutdown_exit_0:
  "\<not> isShuttingDown g \<Longrightarrow>
   fst (gracefulShutdown P se g f d) = g\<lparr>isShuttingDown := True\<rparr>
   \<and> snd (snd (gracefulShutdown P se g f d)) = 0"
  by (simp add: gracefulShutdown_def Let_def split: option.splits)

lemma gracefulShutdown_skip:
  "\<not> isShuttingDown g \<Longrightarrow>
   currentResults g = [] \<or> \<not> currentFinder g \<or> write_error se \<noteq> None \<Longrightarrow>
   fst (snd (gracefulShutdown P se g f d)) = d"
  by (auto simp: gracefulShutdown_def Let_def split: option.splits)

lemma gracefulShutdown_save:
  "\<not> isShuttingDown g \<Longrightarrow> currentFinder g \<Longrightarrow> currentResults g \<noteq> [] \<Longrightarrow>
   write_error se = None \<Longrightarrow>
   partial_output P f (currentResults g) (metadata_time se) = Some out \<Longrightarrow>
   fst (snd (gracefulShutdown P se g f d)) = d @ [(partial_path f se, out)]"
  by (auto simp: gracefulShutdown_def Let_def split: option.splits)

text \<open>
  Claim C7. The handler has two states, told apart by the flag. Running: it sets the
  flag and exits with code 0; when a finder is registered, records have been
  accumulated and the write succeeds, it has written one file, whose name holds the
  marker \<^verbatim>\<open>_PARTIAL_\<close> and whose value holds the accumulated records and a metadata
  object with \<^verbatim>\<open>status\<close> PARTIAL_RESULTS_DUE_TO_INTERRUPTION; without the \<^verbatim>\<open>status\<close>
  member, that metadata is the metadata \<^verbatim>\<open>saveResults\<close> computes for the same records,
  finder and time. With no records it writes nothing and exits with code 0. Shutting
  down: it exits with code 1 and writes nothing.
\<close>

theorem interruption_handler_two_states:
  "(isShuttingDown g \<longrightarrow> gracefulShutdown P se g f d = (g, d, 1))
   \<and> (\<not> isShuttingDown g \<longrightarrow>
        (\<exists>d'. gracefulShutdown P se g f d = (g\<lparr>isShuttingDown := True\<rparr>, d', 0)
           \<and> (currentResults g = [] \<or> \<not> currentFinder g \<or> write_error se \<noteq> None \<longrightarrow> d' = d)
           \<and> (currentFinder g \<and> currentResults g \<noteq> [] \<and> JNull \<notin> set (currentResults g)
                \<and> write_error se = None \<longrightarrow>
                (\<exists>out meta normal nmeta.
                   d' = d @ [(partial_path f se, out)]
                   \<and> str_includes (partial_path f se) ''_PARTIAL_''
                   \<and> property out ''results'' = Some (JArr (currentResults g))
                   \<and> property out ''metadata'' = Some (JObj meta)
                   \<and> map_of meta ''status'' = Some (JStr ''PARTIAL_RESULTS_DUE_TO_INTERRUPTION'')
                   \<and> saveResults_output P f (currentResults g) (metadata_time se) = Some normal
                   \<and> property normal ''metadata'' = Some (JObj nmeta)
                   \<and> filter (\<lambda>(k, v). k \<noteq> ''status'') meta = nmeta))))"
proof (intro conjI impI)
  assume "isShuttingDown g"
  then show "gracefulShutdown P se g f d = (g, d, 1)" by (simp add: gracefulShutdown_def)
next
  assume run: "\<not> isShuttingDown g"
  let ?g = "g\<lparr>isShuttingDown := True\<rparr>"
  obtain d' where gs: "gracefulShutdown P se g f d = (?g, d', 0)"
    using gracefulShutdown_exit_0 [OF run, of P se f d]
    by (cases "gracefulShutdown P se g f d") auto
  have skip: "d' = d" if "currentResults g = [] \<or> \<not> currentFinder g \<or> write_error se \<noteq> None"
    using gracefulShutdown_skip [OF run that, of P f d] gs by simp
  have save: "\<exists>out meta normal nmeta.
                   d' = d @ [(partial_path f se, out)]
                   \<and> str_includes (partial_path f se) ''_PARTIAL_''
                   \<and> property out ''results'' = Some (JArr (currentResults g))
                   \<and> property out ''metadata'' = Some (JObj meta)
                   \<and> map_of meta ''status'' = Some (JStr ''PARTIAL_RESULTS_DUE_TO_INTERRUPTION'')
                   \<and> saveResults_output P f (currentResults g) (metadata_time se) = Some normal
                   \<and> property normal ''metadata'' = Some (JObj nmeta)
                   \<and> filter (\<lambda>(k, v). k \<noteq> ''status'') meta = nmeta"
    if c: "currentFinder g \<and> currentResults g \<noteq> [] \<and> JNull \<notin> set (currentResults g)
           \<and> write_error se = None"
  proof -
    from c have nn: "JNull \<notin> set (currentResults g)" by simp
    from partial_output_statistics [OF nn, of P f "metadata_time se"]
    obtain out meta normal nmeta where
      o: "partial_output P f (currentResults g) (metadata_time se) = Some out"
      and rest: "property out ''results'' = Some (JArr (currentResults g))"
        "property out ''metadata'' = Some (JObj meta)"
        "map_of meta ''status'' = Some (JStr ''PARTIAL_RESULTS_DUE_TO_INTERRUPTION'')"
        "saveResults_output P f (currentResults g) (metadata_time se) = Some normal"
        "property normal ''metadata'' = Some (JObj nmeta)"
        "filter (\<lambda>(k, v). k \<noteq> ''status'') meta = nmeta"
      by blast
    have "d' = d @ [(partial_path f se, out)]"
      using gracefulShutdown_save [OF run _ _ _ o, of d] c gs by simp
    with rest partial_path_marker [of f se] show ?thesis by blast
  qed
  from gs skip save
  show "\<exists>d'. gracefulShutdown P se g f d = (g\<lparr>isShuttingDown := True\<rparr>, d', 0)
           \<and> (currentResults g = [] \<or> \<not> currentFinder g \<or> write_error se \<noteq> None \<longrightarrow> d' = d)
           \<and> (currentFinder g \<and> currentResults g \<noteq> [] \<and> JNull \<notin> set (currentResults g)
                \<and> write_error se = None \<longrightarrow>
                (\<exists>out meta normal nmeta.
                   d' = d @ [(partial_path f se, out)]
                   \<and> str_includes (partial_path f se) ''_PARTIAL_''
                   \<and> property out ''results'' = Some (JArr (currentResults g))
                   \<and> property out ''metadata'' = Some (JObj meta)
                   \<and> map_of meta ''status'' = Some (JStr ''PARTIAL_RESULTS_DUE_TO_INTERRUPTION'')
                   \<and> saveResults_output P f (currentResults g) (metadata_time se) = Some normal
                   \<and> property normal ''metadata'' = Some (JObj nmeta)
                   \<and> filter (\<lambda>(k, v). k \<noteq> ''status'') meta = nmeta))"
    by blast
qed

theorem interruption_handler_two_states_witness:
  "gracefulShutdown acme_runtime sig0 (one_done\<lparr>isShuttingDown := True\<rparr>) acme_finder [] =
     (one_done\<lparr>isShuttingDown := True\<rparr>, [], 1)
   \<and> snd (snd (gracefulShutdown acme_runtime sig0 one_done acme_finder [])) = 0
   \<and> map fst (fst (snd (gracefulShutdown acme_runtime sig0 one_done acme_finder [])))
      = [''results/brand_websites_gpt-4o-mini_PARTIAL_2024-01-15T10-35-25-000Z.json'']
   \<and> gracefulShutdown acme_runtime sig0 idle acme_finder [] = (idle\<lparr>isShuttingDown := True\<rparr>, [], 0)"
proof -
  have a: "isShuttingDown (one_done\<lparr>isShuttingDown := True\<rparr>)" by simp
  have b: "\<not> isShuttingDown one_done" by (simp add: one_done_def)
  have c: "currentFinder one_done \<and> currentResults one_done \<noteq> []
           \<and> JNull \<notin> set (currentResults one_done) \<and> write_error sig0 = None"
    using record_is_object [of acme_runtime mini_finder "''Acme Blades''" "fst acme_ok" now0]
    by (auto simp: one_done_def sig0_def)
  have i: "\<not> isShuttingDown idle" "currentResults idle = []" by (simp_all add: idle_def)
  have p: "partial_path acme_finder sig0
           = ''results/brand_websites_gpt-4o-mini_PARTIAL_2024-01-15T10-35-25-000Z.json''"
    by code_simp
  from interruption_handler_two_states [of "one_done\<lparr>isShuttingDown := True\<rparr>" acme_runtime sig0 acme_finder "[]"] a
  have 1: "gracefulShutdown acme_runtime sig0 (one_done\<lparr>isShuttingDown := True\<rparr>) acme_finder [] =
     (one_done\<lparr>isShuttingDown := True\<rparr>, [], 1)" by blast
  from interruption_handler_two_states [of one_done acme_runtime sig0 acme_finder "[]"] b c
  obtain out where "gracefulShutdown acme_runtime sig0 one_done acme_finder []
      = (one_done\<lparr>isShuttingDown := True\<rparr>, [] @ [(partial_path acme_finder sig0, out)], 0)"
    by blast
  then have 2: "snd (snd (gracefulShutdown acme_runtime sig0 one_done acme_finder [])) = 0"
    "map fst (fst (snd (gracefulShutdown acme_runtime sig0 one_done acme_finder [])))
      = [''results/brand_websites_gpt-4o-mini_PARTIAL_2024-01-15T10-35-25-000Z.json'']"
    using p by simp_all
  from interruption_handler_two_states [of idle acme_runtime sig0 acme_finder "[]"] i
  have 3: "gracefulShutdown acme_runtime sig0 idle acme_finder [] = (idle\<lparr>isShuttingDown := True\<rparr>, [], 0)"
    by auto
  from 1 2 3 show ?thesis by blast
qed

section \<open>Properties of the Completion Store\<close>




























end
